theory Spec2Isabelle
  imports Complex_Main
begin

section \<open>The job store\<close>

text \<open>
  A row of the \<open>jobs\<close> table. Timestamps are milliseconds since the epoch (the value a
  JavaScript \<open>Date\<close> holds); nullable columns are options. The \<open>state\<close> column is a
  string, as in the source. The field \<open>id\<close> is named \<open>job_id\<close> here.
\<close>

type_synonym timestamp = int

record job =
  job_id :: string
  command :: string
  state :: string
  attempts :: int
  max_retries :: int
  created_at :: timestamp
  updated_at :: timestamp
  next_retry_at :: "timestamp option"
  error_message :: "string option"
  completed_at :: "timestamp option"
  locked_by :: "string option"
  locked_at :: "timestamp option"

text \<open>
  The object handed to \<open>.update(...)\<close>: a key that is absent is \<open>None\<close>, a key that is
  present carries its new value (for a nullable column the new value may itself be null).
\<close>

record updates =
  u_state :: "string option"
  u_updated_at :: "timestamp option"
  u_attempts :: "int option"
  u_next_retry_at :: "timestamp option option"
  u_error_message :: "string option option"
  u_completed_at :: "timestamp option option"
  u_locked_by :: "string option option"
  u_locked_at :: "timestamp option option"

definition no_updates :: updates where
  "no_updates = \<lparr>u_state = None, u_updated_at = None, u_attempts = None,
     u_next_retry_at = None, u_error_message = None, u_completed_at = None,
     u_locked_by = None, u_locked_at = None\<rparr>"

definition override :: "'a option \<Rightarrow> 'a option \<Rightarrow> 'a option" where
  "override a b = (case b of None \<Rightarrow> a | Some v \<Rightarrow> Some v)"

text \<open>Object spread \<open>{...a, ...b}\<close>: the keys of \<open>b\<close> win.\<close>

definition spread :: "updates \<Rightarrow> updates \<Rightarrow> updates" where
  "spread a b = \<lparr>u_state = override (u_state a) (u_state b),
     u_updated_at = override (u_updated_at a) (u_updated_at b),
     u_attempts = override (u_attempts a) (u_attempts b),
     u_next_retry_at = override (u_next_retry_at a) (u_next_retry_at b),
     u_error_message = override (u_error_message a) (u_error_message b),
     u_completed_at = override (u_completed_at a) (u_completed_at b),
     u_locked_by = override (u_locked_by a) (u_locked_by b),
     u_locked_at = override (u_locked_at a) (u_locked_at b)\<rparr>"

definition set_to :: "'a option \<Rightarrow> 'a \<Rightarrow> 'a" where
  "set_to u old = (case u of None \<Rightarrow> old | Some v \<Rightarrow> v)"

definition apply_updates :: "updates \<Rightarrow> job \<Rightarrow> job" where
  "apply_updates u j = j\<lparr>state := set_to (u_state u) (state j),
     updated_at := set_to (u_updated_at u) (updated_at j),
     attempts := set_to (u_attempts u) (attempts j),
     next_retry_at := set_to (u_next_retry_at u) (next_retry_at j),
     error_message := set_to (u_error_message u) (error_message j),
     completed_at := set_to (u_completed_at u) (completed_at j),
     locked_by := set_to (u_locked_by u) (locked_by j),
     locked_at := set_to (u_locked_at u) (locked_at j)\<rparr>"

text \<open>
  Errors are values. Each constructor is one \<open>throw\<close> (or, for \<open>Missing_command\<close>, the
  error exit of the command line) of the source; the store's own rejections carry the
  prefix the source puts in front of the store's message.
\<close>

datatype error =
    Missing_command
  | Failed_to_enqueue
  | Failed_to_get_job
  | Failed_to_update_job_state
  | Job_not_found string
  | Job_not_in_DLQ string string
  | Invalid_time_value

text \<open>
  What the columns of the migration take: \<open>state\<close> is under
  \<open>CONSTRAINT valid_state\<close>; \<open>attempts\<close> and \<open>max_retries\<close> are 32-bit integers; a
  \<open>timestamptz\<close> is written as the ISO text of \<open>toISOString\<close>, which the store reads for
  the years 1 to 9999 only (a year from 10000 on is written with a sign and six digits,
  a year before 1 does not exist for the store). The clock readings the operations
  take (\<open>now\<close>, \<open>now_u\<close>, \<open>now_c\<close>) are times of the present, which the store reads; the
  one computed time, \<open>next_retry_at\<close>, is checked.
\<close>

definition valid_state :: "string \<Rightarrow> bool" where
  "valid_state st =
     (st = ''pending'' \<or> st = ''processing'' \<or> st = ''completed'' \<or> st = ''failed''
      \<or> st = ''dead'')"

definition int4 :: "int \<Rightarrow> bool" where
  "int4 n = (- 2147483648 \<le> n \<and> n \<le> 2147483647)"

definition timestamptz_text :: "timestamp \<Rightarrow> bool" where
  "timestamptz_text t = (- 62135596800000 \<le> t \<and> t \<le> 253402300799999)"

definition accepted :: "updates \<Rightarrow> bool" where
  "accepted u =
     ((case u_state u of None \<Rightarrow> True | Some st \<Rightarrow> valid_state st)
      \<and> (case u_attempts u of None \<Rightarrow> True | Some n \<Rightarrow> int4 n)
      \<and> (case u_next_retry_at u of Some (Some t) \<Rightarrow> timestamptz_text t | _ \<Rightarrow> True))"

text \<open>
  The table is a list of its rows, and the place of a row in the list means nothing:
  the order in which the store delivers rows to a selection is the store's own and is
  given to each selection apart (see \<open>scan\<close> below). A filtered update rewrites the rows
  the filter matches; \<open>.select().single()\<close> wants exactly one row back and
  \<open>.select().maybeSingle()\<close> at most one, and a request that fails leaves the table as it
  was. A request fails here only for what it carries and what the table holds (a value
  a column does not take, no row, too many rows); a store that cannot be reached is
  outside the model, so the selections always answer.
\<close>

definition rewrite :: "(job \<Rightarrow> bool) \<Rightarrow> updates \<Rightarrow> job list \<Rightarrow> job list" where
  "rewrite flt u rows = map (\<lambda>r. if flt r then apply_updates u r else r) rows"

definition update_single ::
  "(job \<Rightarrow> bool) \<Rightarrow> updates \<Rightarrow> job list \<Rightarrow> job option \<times> job list" where
  "update_single flt u rows =
     (if \<not> accepted u then (None, rows)
      else case filter flt rows of
             [r] \<Rightarrow> (Some (apply_updates u r), rewrite flt u rows)
           | _ \<Rightarrow> (None, rows))"

definition update_maybeSingle ::
  "(job \<Rightarrow> bool) \<Rightarrow> updates \<Rightarrow> job list \<Rightarrow> (unit + job option) \<times> job list" where
  "update_maybeSingle flt u rows =
     (if \<not> accepted u then (Inl (), rows)
      else case filter flt rows of
             [] \<Rightarrow> (Inr None, rows)
           | [r] \<Rightarrow> (Inr (Some (apply_updates u r)), rewrite flt u rows)
           | _ \<Rightarrow> (Inl (), rows))"

section \<open>The queue operations\<close>

definition getJob :: "string \<Rightarrow> job list \<Rightarrow> error + job option" where
  "getJob jobId rows =
     (case filter (\<lambda>r. job_id r = jobId) rows of
        [] \<Rightarrow> Inr None
      | [r] \<Rightarrow> Inr (Some r)
      | _ \<Rightarrow> Inl Failed_to_get_job)"

text \<open>
  \<open>updateJobState\<close> reads the clock once, for \<open>updated_at\<close>; that reading is the first
  argument.
\<close>

definition updateJobState ::
  "timestamp \<Rightarrow> string \<Rightarrow> string \<Rightarrow> updates \<Rightarrow> job list \<Rightarrow> (error + job) \<times> job list" where
  "updateJobState now jobId st additionalFields rows =
     (let upd = spread (no_updates\<lparr>u_state := Some st, u_updated_at := Some now\<rparr>)
                  additionalFields
      in case update_single (\<lambda>r. job_id r = jobId) upd rows of
           (Some data, rows') \<Rightarrow> (Inr data, rows')
         | (None, rows') \<Rightarrow> (Inl Failed_to_update_job_state, rows'))"

text \<open>
  \<open>markJobCompleted\<close> reads the clock for \<open>completed_at\<close> (\<open>now\<close>) before
  \<open>updateJobState\<close> reads it for \<open>updated_at\<close> (\<open>now_u\<close>).
\<close>

definition markJobCompleted ::
  "timestamp \<Rightarrow> timestamp \<Rightarrow> string \<Rightarrow> job list \<Rightarrow> (error + job) \<times> job list" where
  "markJobCompleted now now_u jobId rows =
     updateJobState now_u jobId ''completed''
       (no_updates\<lparr>u_completed_at := Some (Some now), u_locked_by := Some None,
          u_locked_at := Some None, u_error_message := Some None\<rparr>) rows"

definition retryDLQJob ::
  "timestamp \<Rightarrow> string \<Rightarrow> job list \<Rightarrow> (error + job) \<times> job list" where
  "retryDLQJob now_u jobId rows =
     (case getJob jobId rows of
        Inl e \<Rightarrow> (Inl e, rows)
      | Inr None \<Rightarrow> (Inl (Job_not_found jobId), rows)
      | Inr (Some jb) \<Rightarrow>
          if state jb \<noteq> ''dead'' then (Inl (Job_not_in_DLQ jobId (state jb)), rows)
          else updateJobState now_u jobId ''pending''
                 (no_updates\<lparr>u_attempts := Some 0, u_error_message := Some None,
                    u_next_retry_at := Some None, u_locked_by := Some None,
                    u_locked_at := Some None\<rparr>) rows)"

text \<open>
  \<open>releaseJobLock\<close> sends its update without \<open>.select()\<close>: every row with the id is
  rewritten and nothing is read back.
\<close>

definition releaseJobLock :: "timestamp \<Rightarrow> string \<Rightarrow> job list \<Rightarrow> job list" where
  "releaseJobLock now jobId rows =
     rewrite (\<lambda>r. job_id r = jobId)
       (no_updates\<lparr>u_locked_by := Some None, u_locked_at := Some None,
          u_updated_at := Some now\<rparr>) rows"

subsection \<open>Enqueue\<close>

text \<open>
  The request object, as parsed from JSON: each key may be absent (or null); when
  present, \<open>id\<close> and \<open>command\<close> are strings and \<open>max_retries\<close> is an integer.
  \<open>a || b\<close> takes \<open>b\<close> when \<open>a\<close> is falsy; an absent key, the empty string and the
  number 0 are falsy.
\<close>

record jobData =
  d_id :: "string option"
  d_command :: "string option"
  d_max_retries :: "int option"

definition truthy_string :: "string option \<Rightarrow> bool" where
  "truthy_string v = (case v of None \<Rightarrow> False | Some s \<Rightarrow> s \<noteq> [])"

definition or_string :: "string option \<Rightarrow> string \<Rightarrow> string" where
  "or_string v d = (case v of None \<Rightarrow> d | Some s \<Rightarrow> if s \<noteq> [] then s else d)"

definition or_number :: "int option \<Rightarrow> int \<Rightarrow> int" where
  "or_number v d = (case v of None \<Rightarrow> d | Some n \<Rightarrow> if n \<noteq> 0 then n else d)"

text \<open>
  \<open>.insert(job).select().single()\<close> on the \<open>jobs\<close> table of the migration: \<open>command\<close>
  is \<open>NOT NULL\<close> without a default and \<open>id\<close> is the primary key, so the store refuses a
  row without a command or with an id it already holds, as it refuses a state outside
  \<open>valid_state\<close> and an \<open>attempts\<close> or \<open>max_retries\<close> outside 32 bits; the columns the
  object does not name take their default, null.
\<close>

definition store_insert ::
  "string \<Rightarrow> string option \<Rightarrow> string \<Rightarrow> int \<Rightarrow> int \<Rightarrow> timestamp \<Rightarrow> timestamp \<Rightarrow> job list
     \<Rightarrow> job option \<times> job list" where
  "store_insert i cmd st att mr cr up rows =
     (case cmd of
        None \<Rightarrow> (None, rows)
      | Some c \<Rightarrow>
          if i \<in> set (map job_id rows) \<or> \<not> valid_state st \<or> \<not> int4 att \<or> \<not> int4 mr
          then (None, rows)
          else (let r = \<lparr>job_id = i, command = c, state = st, attempts = att,
                           max_retries = mr, created_at = cr, updated_at = up,
                           next_retry_at = None, error_message = None, completed_at = None,
                           locked_by = None, locked_at = None\<rparr>
                in (Some r, rows @ [r])))"

text \<open>
  \<open>uuid\<close> is what \<open>uuidv4()\<close> returns when it is called; \<open>now_c\<close> and \<open>now_u\<close> are the
  two clock readings, for \<open>created_at\<close> and \<open>updated_at\<close>.
\<close>

definition enqueueJob ::
  "jobData \<Rightarrow> string \<Rightarrow> timestamp \<Rightarrow> timestamp \<Rightarrow> job list \<Rightarrow> (error + job) \<times> job list" where
  "enqueueJob jd uuid now_c now_u rows =
     (case store_insert (or_string (d_id jd) uuid) (d_command jd) ''pending'' 0
             (or_number (d_max_retries jd) 3) now_c now_u rows of
        (Some data, rows') \<Rightarrow> (Inr data, rows')
      | (None, rows') \<Rightarrow> (Inl Failed_to_enqueue, rows'))"

text \<open>
  The \<open>enqueue\<close> action of the command line, from the parsed JSON object on: it checks
  \<open>!jobData.command\<close> and exits with an error before it constructs the queue.
\<close>

definition enqueue_action ::
  "jobData \<Rightarrow> string \<Rightarrow> timestamp \<Rightarrow> timestamp \<Rightarrow> job list \<Rightarrow> (error + job) \<times> job list" where
  "enqueue_action jd uuid now_c now_u rows =
     (if \<not> truthy_string (d_command jd) then (Inl Missing_command, rows)
      else enqueueJob jd uuid now_c now_u rows)"

subsection \<open>Failure and backoff\<close>

text \<open>
  \<open>Math.pow\<close> on an integer base and an integer exponent: a power for an exponent from
  0 on, the inverse of a power for a negative one, and Infinity (\<open>None\<close> here) for base
  0 with a negative exponent. \<open>new Date(v)\<close> cuts the fraction of \<open>v\<close> off towards zero;
  a \<open>Date\<close> holds a time value of at most 8.64e15 ms in absolute value, beyond it (and
  for Infinity) the date is invalid and \<open>toISOString\<close> throws a RangeError. The numbers
  are the exact ones: every integer a \<open>Date\<close> can hold is exact as a double, and of a
  fraction the double is the nearest it has.
\<close>

definition Math_pow :: "int \<Rightarrow> int \<Rightarrow> rat option" where
  "Math_pow b n =
     (if 0 \<le> n then Some (of_int b ^ nat n)
      else if b = 0 then None
      else Some (1 / of_int b ^ nat (- n)))"

definition new_Date :: "rat \<Rightarrow> timestamp option" where
  "new_Date v =
     (let t = (if 0 \<le> v then \<lfloor>v\<rfloor> else \<lceil>v\<rceil>)
      in if \<bar>t\<bar> > 8640000000000000 then None else Some t)"

text \<open>
  \<open>date_now\<close> is the reading of \<open>Date.now()\<close>, \<open>now_u\<close> the later one inside
  \<open>updateJobState\<close>. The retry time is turned into text before \<open>updateJobState\<close> is
  called, so an invalid date throws with nothing sent; a valid date that the store does
  not read is refused by the store and comes back as the error of \<open>updateJobState\<close>.
\<close>

definition markJobFailed ::
  "timestamp \<Rightarrow> timestamp \<Rightarrow> string \<Rightarrow> string \<Rightarrow> int \<Rightarrow> job list
     \<Rightarrow> (error + job) \<times> job list" where
  "markJobFailed date_now now_u jobId errorMessage backoffBase rows =
     (case getJob jobId rows of
        Inl e \<Rightarrow> (Inl e, rows)
      | Inr None \<Rightarrow> (Inl (Job_not_found jobId), rows)
      | Inr (Some jb) \<Rightarrow>
          (let newAttempts = attempts jb + 1 in
           if newAttempts \<ge> max_retries jb then
             updateJobState now_u jobId ''dead''
               (no_updates\<lparr>u_attempts := Some newAttempts,
                  u_error_message := Some (Some errorMessage), u_locked_by := Some None,
                  u_locked_at := Some None, u_next_retry_at := Some None\<rparr>) rows
           else
             (case Math_pow backoffBase newAttempts of
                None \<Rightarrow> (Inl Invalid_time_value, rows)
              | Some delaySeconds \<Rightarrow>
                  (case new_Date (of_int date_now + delaySeconds * 1000) of
                     None \<Rightarrow> (Inl Invalid_time_value, rows)
                   | Some nextRetryAt \<Rightarrow>
                       updateJobState now_u jobId ''failed''
                         (no_updates\<lparr>u_attempts := Some newAttempts,
                            u_error_message := Some (Some errorMessage),
                            u_next_retry_at := Some (Some nextRetryAt),
                            u_locked_by := Some None, u_locked_at := Some None\<rparr>) rows))))"

subsection \<open>Acquiring a lease\<close>

text \<open>
  The three selections of \<open>acquireJobLock\<close>. A comparison with a null column is not
  true, so a row whose timestamp is null passes neither \<open>.lte\<close> nor \<open>.lt\<close>. Each
  selection is given the rows in the order the store delivers them to it. The first two
  selections are ordered (ascending) before \<open>.limit(1)\<close>, and of rows with equal keys
  the one delivered first comes first; the third has no \<open>.order\<close> and takes the matching
  row that is delivered first.
\<close>

definition is_pending_free :: "job \<Rightarrow> bool" where
  "is_pending_free r = (state r = ''pending'' \<and> locked_by r = None)"

definition is_retry_due :: "timestamp \<Rightarrow> job \<Rightarrow> bool" where
  "is_retry_due now r =
     (state r = ''failed''
      \<and> (case next_retry_at r of None \<Rightarrow> False | Some t \<Rightarrow> t \<le> now)
      \<and> locked_by r = None)"

definition lockTimeout :: "timestamp \<Rightarrow> timestamp" where
  "lockTimeout now = now - 5 * 60 * 1000"

definition is_stale :: "timestamp \<Rightarrow> job \<Rightarrow> bool" where
  "is_stale now r =
     (state r = ''processing'' \<and> locked_by r \<noteq> None
      \<and> (case locked_at r of None \<Rightarrow> False | Some t \<Rightarrow> t < lockTimeout now))"

definition pendingJobs :: "job list \<Rightarrow> job list" where
  "pendingJobs rows = take 1 (sort_key created_at (filter is_pending_free rows))"

definition retryJobs :: "timestamp \<Rightarrow> job list \<Rightarrow> job list" where
  "retryJobs now rows =
     take 1 (sort_key (\<lambda>r. the (next_retry_at r)) (filter (is_retry_due now) rows))"

definition staleLocks :: "timestamp \<Rightarrow> job list \<Rightarrow> job list" where
  "staleLocks now rows = take 1 (filter (is_stale now) rows)"

text \<open>
  The lease-taking update. For a pending or a failed candidate it is filtered by the
  candidate's id and \<open>locked_by IS NULL\<close>; for a stale candidate by the id alone.
\<close>

definition lock_fields :: "string \<Rightarrow> timestamp \<Rightarrow> updates" where
  "lock_fields workerId now =
     no_updates\<lparr>u_locked_by := Some (Some workerId), u_locked_at := Some (Some now),
       u_state := Some ''processing'', u_updated_at := Some now\<rparr>"

definition claim_unlocked ::
  "string \<Rightarrow> timestamp \<Rightarrow> job \<Rightarrow> job list \<Rightarrow> (unit + job option) \<times> job list" where
  "claim_unlocked workerId now jb rows =
     update_maybeSingle (\<lambda>r. job_id r = job_id jb \<and> locked_by r = None)
       (lock_fields workerId now) rows"

definition claim_stale ::
  "string \<Rightarrow> timestamp \<Rightarrow> job \<Rightarrow> job list \<Rightarrow> (unit + job option) \<times> job list" where
  "claim_stale workerId now jb rows =
     update_maybeSingle (\<lambda>r. job_id r = job_id jb) (lock_fields workerId now) rows"

text \<open>
  What a call of \<open>acquireJobLock\<close> does not decide: \<open>scan\<close> is the order in which the
  store delivers the rows of a table to a selection (some order of exactly those rows),
  and \<open>meanwhile_pending\<close>, \<open>meanwhile_retry\<close> and \<open>meanwhile_stale\<close> are what the other
  writers do to the table between the first, second and third selection and the claim
  that follows it. In \<open>quiet\<close> the rows are delivered as the list has them and nobody
  else writes.
\<close>

record env =
  scan :: "job list \<Rightarrow> job list"
  meanwhile_pending :: "job list \<Rightarrow> job list"
  meanwhile_retry :: "job list \<Rightarrow> job list"
  meanwhile_stale :: "job list \<Rightarrow> job list"

definition quiet :: env where
  "quiet = \<lparr>scan = (\<lambda>t. t), meanwhile_pending = (\<lambda>t. t), meanwhile_retry = (\<lambda>t. t),
     meanwhile_stale = (\<lambda>t. t)\<rparr>"

text \<open>
  \<open>acquireJobLock\<close> from its third, its second and its first selection on. A claim that
  comes back with an error or with no row falls through to the next selection.
\<close>

definition acquire_stale_in ::
  "env \<Rightarrow> string \<Rightarrow> timestamp \<Rightarrow> job list \<Rightarrow> job option \<times> job list" where
  "acquire_stale_in e workerId now rows =
     (case staleLocks now (scan e rows) of
        [] \<Rightarrow> (None, rows)
      | jb # _ \<Rightarrow>
          (case claim_stale workerId now jb (meanwhile_stale e rows) of
             (Inr (Some lockedJob), rows') \<Rightarrow> (Some lockedJob, rows')
           | (_, rows') \<Rightarrow> (None, rows')))"

definition acquire_retry_in ::
  "env \<Rightarrow> string \<Rightarrow> timestamp \<Rightarrow> job list \<Rightarrow> job option \<times> job list" where
  "acquire_retry_in e workerId now rows =
     (case retryJobs now (scan e rows) of
        [] \<Rightarrow> acquire_stale_in e workerId now rows
      | jb # _ \<Rightarrow>
          (case claim_unlocked workerId now jb (meanwhile_retry e rows) of
             (Inr (Some lockedJob), rows') \<Rightarrow> (Some lockedJob, rows')
           | (_, rows') \<Rightarrow> acquire_stale_in e workerId now rows'))"

definition acquireJobLock_in ::
  "env \<Rightarrow> string \<Rightarrow> timestamp \<Rightarrow> job list \<Rightarrow> job option \<times> job list" where
  "acquireJobLock_in e workerId now rows =
     (case pendingJobs (scan e rows) of
        [] \<Rightarrow> acquire_retry_in e workerId now rows
      | jb # _ \<Rightarrow>
          (case claim_unlocked workerId now jb (meanwhile_pending e rows) of
             (Inr (Some lockedJob), rows') \<Rightarrow> (Some lockedJob, rows')
           | (_, rows') \<Rightarrow> acquire_retry_in e workerId now rows'))"

text \<open>The call that runs alone, on a table delivered as the list has it.\<close>

definition acquire_stale :: "string \<Rightarrow> timestamp \<Rightarrow> job list \<Rightarrow> job option \<times> job list" where
  "acquire_stale workerId now rows = acquire_stale_in quiet workerId now rows"

definition acquire_retry :: "string \<Rightarrow> timestamp \<Rightarrow> job list \<Rightarrow> job option \<times> job list" where
  "acquire_retry workerId now rows = acquire_retry_in quiet workerId now rows"

definition acquireJobLock :: "string \<Rightarrow> timestamp \<Rightarrow> job list \<Rightarrow> job option \<times> job list" where
  "acquireJobLock workerId now rows = acquireJobLock_in quiet workerId now rows"

text \<open>The row a successful claim writes and returns.\<close>

definition leased :: "string \<Rightarrow> timestamp \<Rightarrow> job \<Rightarrow> job" where
  "leased workerId now r =
     r\<lparr>state := ''processing'', updated_at := now, locked_by := Some workerId,
       locked_at := Some now\<rparr>"

subsection \<open>Statistics\<close>

text \<open>
  The counters object; its key \<open>total\<close> is the field \<open>total_stat\<close>. The loop body is
  \<open>if (stats.hasOwnProperty(job.state)) stats[job.state]++\<close>, and the object's own keys
  are the six below.
\<close>

record stats =
  pending :: int
  processing :: int
  completed :: int
  failed :: int
  dead :: int
  total_stat :: int

definition count_state :: "stats \<Rightarrow> string \<Rightarrow> stats" where
  "count_state s st =
     (if st = ''pending'' then s\<lparr>pending := pending s + 1\<rparr>
      else if st = ''processing'' then s\<lparr>processing := processing s + 1\<rparr>
      else if st = ''completed'' then s\<lparr>completed := completed s + 1\<rparr>
      else if st = ''failed'' then s\<lparr>failed := failed s + 1\<rparr>
      else if st = ''dead'' then s\<lparr>dead := dead s + 1\<rparr>
      else if st = ''total'' then s\<lparr>total_stat := total_stat s + 1\<rparr>
      else s)"

definition getJobStats :: "job list \<Rightarrow> stats" where
  "getJobStats rows =
     foldl (\<lambda>s r. count_state s (state r))
       \<lparr>pending = 0, processing = 0, completed = 0, failed = 0, dead = 0,
        total_stat = int (length rows)\<rparr> rows"

definition in_state :: "string \<Rightarrow> job list \<Rightarrow> int" where
  "in_state st rows = int (length (filter (\<lambda>r. state r = st) rows))"

section \<open>The invariants of the data model\<close>

text \<open>
  The two equivalences of the data model, row by row, and the one-directional form of
  the second.
\<close>

definition lease_inv :: "job \<Rightarrow> bool" where
  "lease_inv r = ((locked_by r \<noteq> None) = (state r = ''processing''))"

definition retry_inv :: "job \<Rightarrow> bool" where
  "retry_inv r = ((next_retry_at r \<noteq> None) = (state r = ''failed''))"

definition retry_sched_inv :: "job \<Rightarrow> bool" where
  "retry_sched_inv r =
     ((state r = ''failed'' \<longrightarrow> next_retry_at r \<noteq> None)
      \<and> (state r = ''pending'' \<or> state r = ''dead'' \<longrightarrow> next_retry_at r = None))"

definition only_processing_leased :: "job \<Rightarrow> bool" where
  "only_processing_leased r = (locked_by r = None \<or> state r = ''processing'')"

section \<open>Sample rows\<close>

definition sample_job :: "string \<Rightarrow> string \<Rightarrow> job" where
  "sample_job i st = \<lparr>job_id = i, command = ''echo hello'', state = st, attempts = 0,
     max_retries = 3, created_at = 1000, updated_at = 1000, next_retry_at = None,
     error_message = None, completed_at = None, locked_by = None, locked_at = None\<rparr>"

definition held_job :: job where
  "held_job = (sample_job ''job1'' ''processing'')\<lparr>attempts := 1,
     error_message := Some ''boom'', locked_by := Some ''worker-a'',
     locked_at := Some 2000\<rparr>"

definition dead_job :: job where
  "dead_job = (sample_job ''job3'' ''dead'')\<lparr>attempts := 3,
     error_message := Some ''command not found''\<rparr>"

definition fresh_held_job :: job where
  "fresh_held_job = (sample_job ''job1'' ''processing'')\<lparr>locked_by := Some ''worker-a'',
     locked_at := Some 1700000000000\<rparr>"

text \<open>
  Rows and stores for a clock reading of 1000000 ms: a lease taken before 700000 is
  stale.
\<close>

definition pending_old :: job where
  "pending_old = (sample_job ''job-a'' ''pending'')\<lparr>created_at := 100\<rparr>"

definition pending_new :: job where
  "pending_new = (sample_job ''job-b'' ''pending'')\<lparr>created_at := 200\<rparr>"

definition failed_soon :: job where
  "failed_soon = (sample_job ''job-c'' ''failed'')\<lparr>attempts := 1,
     next_retry_at := Some 1500, error_message := Some ''boom''\<rparr>"

definition failed_later :: job where
  "failed_later = (sample_job ''job-d'' ''failed'')\<lparr>attempts := 2,
     next_retry_at := Some 1800, error_message := Some ''boom''\<rparr>"

definition failed_not_due :: job where
  "failed_not_due = (sample_job ''job-e'' ''failed'')\<lparr>attempts := 1,
     next_retry_at := Some 9000000, error_message := Some ''boom''\<rparr>"

definition stale_recent :: job where
  "stale_recent = (sample_job ''job-f'' ''processing'')\<lparr>locked_by := Some ''worker-a'',
     locked_at := Some 600000\<rparr>"

definition stale_oldest :: job where
  "stale_oldest = (sample_job ''job-g'' ''processing'')\<lparr>locked_by := Some ''worker-c'',
     locked_at := Some 100000\<rparr>"

definition held_recent :: job where
  "held_recent = (sample_job ''job-h'' ''processing'')\<lparr>locked_by := Some ''worker-a'',
     locked_at := Some 900000\<rparr>"

definition store_a :: "job list" where
  "store_a = [stale_recent, failed_later, pending_new, failed_soon, pending_old, stale_oldest]"

definition store_b :: "job list" where
  "store_b = [stale_recent, failed_later, failed_not_due, failed_soon, stale_oldest]"

definition store_c :: "job list" where
  "store_c = [held_recent, stale_recent, failed_not_due, stale_oldest]"

definition store_d :: "job list" where
  "store_d = [held_recent, failed_not_due]"

definition store_s :: "job list" where
  "store_s = [stale_oldest, held_recent]"

text \<open>
  Other writers at work during a call: \<open>taken_by\<close> is another worker's lease on the job
  with the given id, written between a selection of the call and its claim.
\<close>

definition taken_by :: "string \<Rightarrow> timestamp \<Rightarrow> string \<Rightarrow> job list \<Rightarrow> job list" where
  "taken_by workerId t i rows =
     map (\<lambda>x. if job_id x = i then leased workerId t x else x) rows"

definition lost_once :: env where
  "lost_once = quiet\<lparr>meanwhile_pending := taken_by ''worker-z'' 999990 ''job-a''\<rparr>"

definition lost_twice :: env where
  "lost_twice = lost_once\<lparr>meanwhile_retry := taken_by ''worker-y'' 999995 ''job-c''\<rparr>"

section \<open>Facts about the store\<close>

text \<open>The primary key: no two rows share an id.\<close>

definition primary_key :: "job list \<Rightarrow> bool" where
  "primary_key rows = distinct (map job_id rows)"

lemma filter_id_unique:
  "distinct (map job_id rows) \<Longrightarrow> j \<in> set rows \<Longrightarrow>
   filter (\<lambda>r. job_id r = job_id j) rows = [j]"
proof (induction rows)
  case Nil
  then show ?case by simp
next
  case (Cons r rows)
  show ?case
  proof (cases "r = j")
    case True
    from Cons.prems(1) True have "job_id j \<notin> job_id ` set rows" by simp
    then have "\<forall>x\<in>set rows. job_id x \<noteq> job_id j" by (metis imageI)
    then have "filter (\<lambda>x. job_id x = job_id j) rows = []"
      by (simp add: filter_empty_conv)
    with True show ?thesis by simp
  next
    case False
    with Cons.prems have jin: "j \<in> set rows" by simp
    from Cons.prems(1) have "job_id r \<notin> job_id ` set rows" by simp
    with jin have "job_id r \<noteq> job_id j" by (metis imageI)
    moreover have "filter (\<lambda>x. job_id x = job_id j) rows = [j]"
      using Cons.IH Cons.prems(1) jin by simp
    ultimately show ?thesis by simp
  qed
qed

lemma getJob_present:
  "primary_key rows \<Longrightarrow> j \<in> set rows \<Longrightarrow> getJob (job_id j) rows = Inr (Some j)"
  by (simp add: getJob_def primary_key_def filter_id_unique)

lemmas upd_defs = apply_updates_def spread_def no_updates_def override_def set_to_def

lemmas accepted_defs = accepted_def spread_def no_updates_def override_def valid_state_def

lemma updateJobState_present:
  "primary_key rows \<Longrightarrow> j \<in> set rows \<Longrightarrow>
   accepted (spread (no_updates\<lparr>u_state := Some st, u_updated_at := Some now\<rparr>) add) \<Longrightarrow>
   updateJobState now (job_id j) st add rows =
     (Inr (apply_updates (spread (no_updates\<lparr>u_state := Some st, u_updated_at := Some now\<rparr>) add) j),
      rewrite (\<lambda>r. job_id r = job_id j)
        (spread (no_updates\<lparr>u_state := Some st, u_updated_at := Some now\<rparr>) add) rows)"
  by (simp add: updateJobState_def update_single_def primary_key_def filter_id_unique Let_def)

lemma rewrite_other:
  "r \<in> set rows \<Longrightarrow> \<not> flt r \<Longrightarrow> r \<in> set (rewrite flt u rows)"
  by (auto simp: rewrite_def)

lemma rewrite_set:
  "set (rewrite flt u rows) = apply_updates u ` {r \<in> set rows. flt r} \<union> {r \<in> set rows. \<not> flt r}"
  by (auto simp: rewrite_def)

lemma rewrite_ids: "map job_id (rewrite flt u rows) = map job_id rows"
  by (simp add: rewrite_def apply_updates_def)

lemma getJob_after_rewrite:
  assumes "primary_key rows" and "j \<in> set rows"
  shows "getJob (job_id j) (rewrite (\<lambda>r. job_id r = job_id j) u rows)
           = Inr (Some (apply_updates u j))"
proof -
  let ?rows' = "rewrite (\<lambda>r. job_id r = job_id j) u rows"
  have pk: "primary_key ?rows'"
    using assms(1) by (simp add: primary_key_def rewrite_ids)
  have mem: "apply_updates u j \<in> set ?rows'"
    using assms(2) by (auto simp: rewrite_set)
  have "getJob (job_id (apply_updates u j)) ?rows' = Inr (Some (apply_updates u j))"
    using pk mem by (rule getJob_present)
  then show ?thesis by (simp add: apply_updates_def)
qed

section \<open>Successful completion\<close>

text \<open>
  C7. On a successful outcome \<open>markJobCompleted\<close> rewrites the job's row to
  \<open>state = completed\<close>, \<open>completed_at = now\<close>, \<open>error_message = null\<close>, with
  \<open>locked_by\<close> and \<open>locked_at\<close> null, and leaves \<open>attempts\<close> (and every column other
  than \<open>updated_at\<close>) as it was. The rewritten row is what the call returns and what the
  store then holds under that id; the other rows stay.
\<close>

theorem markJobCompleted_spec:
  assumes "primary_key rows" and "j \<in> set rows"
  shows "\<exists>j' rows'. markJobCompleted now now_u (job_id j) rows = (Inr j', rows')
           \<and> j' = j\<lparr>state := ''completed'', updated_at := now_u, error_message := None,
                    completed_at := Some now, locked_by := None, locked_at := None\<rparr>
           \<and> attempts j' = attempts j
           \<and> getJob (job_id j) rows' = Inr (Some j')
           \<and> (\<forall>r\<in>set rows. job_id r \<noteq> job_id j \<longrightarrow> r \<in> set rows')"
proof -
  let ?u = "spread (no_updates\<lparr>u_state := Some ''completed'', u_updated_at := Some now_u\<rparr>)
              (no_updates\<lparr>u_completed_at := Some (Some now), u_locked_by := Some None,
                 u_locked_at := Some None, u_error_message := Some None\<rparr>)"
  let ?rows' = "rewrite (\<lambda>r. job_id r = job_id j) ?u rows"
  have acc: "accepted ?u" by (simp add: accepted_defs)
  have run: "markJobCompleted now now_u (job_id j) rows = (Inr (apply_updates ?u j), ?rows')"
    unfolding markJobCompleted_def using assms acc by (rule updateJobState_present)
  have shape: "apply_updates ?u j =
      j\<lparr>state := ''completed'', updated_at := now_u, error_message := None,
        completed_at := Some now, locked_by := None, locked_at := None\<rparr>"
    by (simp add: apply_updates_def spread_def no_updates_def override_def set_to_def)
  have stored: "getJob (job_id j) ?rows' = Inr (Some (apply_updates ?u j))"
    using assms by (rule getJob_after_rewrite)
  have others: "\<forall>r\<in>set rows. job_id r \<noteq> job_id j \<longrightarrow> r \<in> set ?rows'"
    by (simp add: rewrite_other)
  show ?thesis
    unfolding run using shape stored others by simp
qed

theorem markJobCompleted_spec_witness:
  "primary_key [held_job, sample_job ''job2'' ''pending'']
   \<and> held_job \<in> set [held_job, sample_job ''job2'' ''pending'']
   \<and> (\<exists>j' rows'. markJobCompleted 5000 5001 (job_id held_job)
                      [held_job, sample_job ''job2'' ''pending''] = (Inr j', rows')
           \<and> j' = held_job\<lparr>state := ''completed'', updated_at := 5001, error_message := None,
                    completed_at := Some 5000, locked_by := None, locked_at := None\<rparr>
           \<and> attempts j' = attempts held_job
           \<and> getJob (job_id held_job) rows' = Inr (Some j')
           \<and> (\<forall>r\<in>set [held_job, sample_job ''job2'' ''pending''].
                 job_id r \<noteq> job_id held_job \<longrightarrow> r \<in> set rows'))"
proof -
  have pk: "primary_key [held_job, sample_job ''job2'' ''pending'']"
    by (simp add: primary_key_def held_job_def sample_job_def)
  have mem: "held_job \<in> set [held_job, sample_job ''job2'' ''pending'']" by simp
  from markJobCompleted_spec [OF pk mem, of 5000 5001] pk mem show ?thesis by blast
qed

section \<open>Retrying a job from the dead-letter queue\<close>

text \<open>
  C6. \<open>retryDLQJob\<close> on a job whose state is \<open>dead\<close> returns and stores the row with
  \<open>state = pending\<close>, \<open>attempts = 0\<close>, \<open>error_message\<close>, \<open>next_retry_at\<close>, \<open>locked_by\<close>
  and \<open>locked_at\<close> null. On an existing job in any other state it throws the
  "is not in DLQ" error (the conflict error of the specification) and the store is
  exactly what it was.
\<close>

theorem retryDLQJob_spec:
  assumes "primary_key rows" and "j \<in> set rows"
  shows "(state j = ''dead'' \<longrightarrow>
            (\<exists>j' rows'. retryDLQJob now_u (job_id j) rows = (Inr j', rows')
               \<and> j' = j\<lparr>state := ''pending'', updated_at := now_u, attempts := 0,
                        next_retry_at := None, error_message := None,
                        locked_by := None, locked_at := None\<rparr>
               \<and> getJob (job_id j) rows' = Inr (Some j')))
       \<and> (state j \<noteq> ''dead'' \<longrightarrow>
            retryDLQJob now_u (job_id j) rows
              = (Inl (Job_not_in_DLQ (job_id j) (state j)), rows))"
proof (intro conjI impI)
  assume dead: "state j = ''dead''"
  let ?u = "spread (no_updates\<lparr>u_state := Some ''pending'', u_updated_at := Some now_u\<rparr>)
              (no_updates\<lparr>u_attempts := Some 0, u_error_message := Some None,
                    u_next_retry_at := Some None, u_locked_by := Some None,
                    u_locked_at := Some None\<rparr>)"
  let ?rows' = "rewrite (\<lambda>r. job_id r = job_id j) ?u rows"
  have acc: "accepted ?u" by (simp add: accepted_defs int4_def)
  have run: "retryDLQJob now_u (job_id j) rows = (Inr (apply_updates ?u j), ?rows')"
    using assms dead acc by (simp add: retryDLQJob_def getJob_present updateJobState_present)
  have shape: "apply_updates ?u j = j\<lparr>state := ''pending'', updated_at := now_u, attempts := 0,
                        next_retry_at := None, error_message := None,
                        locked_by := None, locked_at := None\<rparr>"
    by (simp add: apply_updates_def spread_def no_updates_def override_def set_to_def)
  have stored: "getJob (job_id j) ?rows' = Inr (Some (apply_updates ?u j))"
    using assms by (rule getJob_after_rewrite)
  show "\<exists>j' rows'. retryDLQJob now_u (job_id j) rows = (Inr j', rows')
               \<and> j' = j\<lparr>state := ''pending'', updated_at := now_u, attempts := 0,
                        next_retry_at := None, error_message := None,
                        locked_by := None, locked_at := None\<rparr>
               \<and> getJob (job_id j) rows' = Inr (Some j')"
    unfolding run using shape stored by simp
next
  assume "state j \<noteq> ''dead''"
  then show "retryDLQJob now_u (job_id j) rows = (Inl (Job_not_in_DLQ (job_id j) (state j)), rows)"
    using assms by (simp add: retryDLQJob_def getJob_present)
qed

theorem retryDLQJob_spec_witness:
  "primary_key [dead_job, held_job] \<and> dead_job \<in> set [dead_job, held_job]
   \<and> held_job \<in> set [dead_job, held_job]
   \<and> state dead_job = ''dead'' \<and> state held_job \<noteq> ''dead''
   \<and> (\<exists>j' rows'. retryDLQJob 9000 (job_id dead_job) [dead_job, held_job] = (Inr j', rows')
          \<and> state j' = ''pending'' \<and> attempts j' = 0 \<and> error_message j' = None
          \<and> next_retry_at j' = None \<and> locked_by j' = None \<and> locked_at j' = None
          \<and> getJob (job_id dead_job) rows' = Inr (Some j'))
   \<and> retryDLQJob 9000 (job_id held_job) [dead_job, held_job]
        = (Inl (Job_not_in_DLQ ''job1'' ''processing''), [dead_job, held_job])"
proof -
  have pk: "primary_key [dead_job, held_job]"
    by (simp add: primary_key_def held_job_def dead_job_def sample_job_def)
  have m1: "dead_job \<in> set [dead_job, held_job]" and m2: "held_job \<in> set [dead_job, held_job]"
    by simp_all
  have s1: "state dead_job = ''dead''" by (simp add: dead_job_def sample_job_def)
  have s2: "state held_job \<noteq> ''dead''" by (simp add: held_job_def sample_job_def)
  have s3: "state held_job = ''processing''" "job_id held_job = ''job1''"
    by (simp_all add: held_job_def sample_job_def)
  from retryDLQJob_spec [OF pk m1, of 9000] s1
  obtain j' rows' where a: "retryDLQJob 9000 (job_id dead_job) [dead_job, held_job] = (Inr j', rows')"
     and b: "j' = dead_job\<lparr>state := ''pending'', updated_at := 9000, attempts := 0,
                        next_retry_at := None, error_message := None,
                        locked_by := None, locked_at := None\<rparr>"
     and c: "getJob (job_id dead_job) rows' = Inr (Some j')" by blast
  from b have d: "state j' = ''pending'' \<and> attempts j' = 0 \<and> error_message j' = None
          \<and> next_retry_at j' = None \<and> locked_by j' = None \<and> locked_at j' = None" by simp
  from retryDLQJob_spec [OF pk m2, of 9000] s2 s3
  have e: "retryDLQJob 9000 (job_id held_job) [dead_job, held_job]
        = (Inl (Job_not_in_DLQ ''job1'' ''processing''), [dead_job, held_job])" by simp
  from pk m1 m2 s1 s2 a c d e show ?thesis by blast
qed

section \<open>Enqueue\<close>

text \<open>
  C8, as amended. A request without a \<open>command\<close> is rejected and the store is
  unchanged, in one of two ways. The enqueue action of the command line rejects it with
  its "must have a command field" error (the validation error of the specification)
  before the queue is called. \<open>enqueueJob\<close> itself has no such check: called directly,
  it sends the insert, the store refuses the row that has no command, and the error is
  the "Failed to enqueue job" that wraps the store's.
\<close>

theorem enqueue_missing_command:
  assumes "d_command jd = None"
  shows "enqueue_action jd uuid now_c now_u rows = (Inl Missing_command, rows)
       \<and> enqueueJob jd uuid now_c now_u rows = (Inl Failed_to_enqueue, rows)
       \<and> store_insert i None st att mr cr up rows = (None, rows)"
  using assms by (simp add: enqueue_action_def truthy_string_def enqueueJob_def store_insert_def)

theorem enqueue_missing_command_witness:
  "d_command \<lparr>d_id = Some ''job9'', d_command = None, d_max_retries = Some 2\<rparr> = None
   \<and> enqueue_action \<lparr>d_id = Some ''job9'', d_command = None, d_max_retries = Some 2\<rparr>
        ''generated-id'' 7000 7001 [held_job] = (Inl Missing_command, [held_job])
   \<and> enqueueJob \<lparr>d_id = Some ''job9'', d_command = None, d_max_retries = Some 2\<rparr>
        ''generated-id'' 7000 7001 [held_job] = (Inl Failed_to_enqueue, [held_job])"
  using enqueue_missing_command
    [of "\<lparr>d_id = Some ''job9'', d_command = None, d_max_retries = Some 2\<rparr>"
        "''generated-id''" 7000 7001 "[held_job]"]
  by simp

text \<open>
  The claim as written fails for \<open>enqueueJob\<close>: the request without a command is not
  turned away by a validation before the write, it is the insert that the store
  refuses.
\<close>

theorem enqueueJob_not_validated:
  "enqueueJob \<lparr>d_id = Some ''job9'', d_command = None, d_max_retries = Some 2\<rparr>
      ''generated-id'' 7000 7001 [held_job] = (Inl Failed_to_enqueue, [held_job])
   \<and> Failed_to_enqueue \<noteq> Missing_command
   \<and> store_insert ''job9'' None ''pending'' 0 2 7000 7001 [held_job] = (None, [held_job])"
  by (simp add: enqueueJob_def store_insert_def or_string_def or_number_def)

text \<open>
  C9. For every request, with \<open>i\<close> the requested id when that is truthy (present and
  not empty) and the generated one otherwise, and \<open>m\<close> the requested \<open>max_retries\<close> when
  that is truthy (present and not 0) and 3 otherwise: if the request has a command, the
  store holds no job with id \<open>i\<close> and \<open>m\<close> fits the column, \<open>enqueueJob\<close> creates exactly
  the job with id \<open>i\<close>, that command, \<open>state = pending\<close>, \<open>attempts = 0\<close> and
  \<open>max_retries = m\<close>, returns it and appends it to the store; otherwise it creates
  nothing. So a request for \<open>max_retries = 0\<close> gets 3 and the empty id gets a generated
  one.
\<close>

theorem enqueueJob_spec:
  assumes "i = (case d_id jd of None \<Rightarrow> uuid | Some s \<Rightarrow> if s \<noteq> [] then s else uuid)"
    and "m = (case d_max_retries jd of None \<Rightarrow> 3 | Some n \<Rightarrow> if n \<noteq> 0 then n else 3)"
  shows "(\<forall>c. d_command jd = Some c \<and> i \<notin> job_id ` set rows \<and> int4 m \<longrightarrow>
            enqueueJob jd uuid now_c now_u rows
              = (Inr \<lparr>job_id = i, command = c, state = ''pending'', attempts = 0,
                      max_retries = m, created_at = now_c, updated_at = now_u,
                      next_retry_at = None, error_message = None, completed_at = None,
                      locked_by = None, locked_at = None\<rparr>,
                 rows @ [\<lparr>job_id = i, command = c, state = ''pending'', attempts = 0,
                      max_retries = m, created_at = now_c, updated_at = now_u,
                      next_retry_at = None, error_message = None, completed_at = None,
                      locked_by = None, locked_at = None\<rparr>]))
       \<and> (d_command jd = None \<or> i \<in> job_id ` set rows \<or> \<not> int4 m \<longrightarrow>
            enqueueJob jd uuid now_c now_u rows = (Inl Failed_to_enqueue, rows))
       \<and> (d_max_retries jd = Some 0 \<longrightarrow> m = 3)
       \<and> (d_id jd = Some [] \<longrightarrow> i = uuid)"
  using assms
  by (auto simp: enqueueJob_def store_insert_def Let_def or_number_def or_string_def
      valid_state_def int4_def split: option.splits if_splits)

theorem enqueueJob_spec_witness:
  "enqueueJob \<lparr>d_id = Some [], d_command = Some ''sleep 2'', d_max_retries = Some 0\<rparr>
      ''generated-id'' 7000 7001 [held_job]
     = (Inr ((sample_job ''generated-id'' ''pending'')\<lparr>command := ''sleep 2'',
               created_at := 7000, updated_at := 7001\<rparr>),
        [held_job, (sample_job ''generated-id'' ''pending'')\<lparr>command := ''sleep 2'',
               created_at := 7000, updated_at := 7001\<rparr>])
   \<and> enqueueJob \<lparr>d_id = Some ''job2'', d_command = Some ''sleep 2'', d_max_retries = Some 5\<rparr>
      ''generated-id'' 7000 7001 [held_job]
     = (Inr ((sample_job ''job2'' ''pending'')\<lparr>command := ''sleep 2'', max_retries := 5,
               created_at := 7000, updated_at := 7001\<rparr>),
        [held_job, (sample_job ''job2'' ''pending'')\<lparr>command := ''sleep 2'',
               max_retries := 5, created_at := 7000, updated_at := 7001\<rparr>])
   \<and> enqueueJob \<lparr>d_id = Some ''job1'', d_command = Some ''sleep 2'', d_max_retries = None\<rparr>
      ''generated-id'' 7000 7001 [held_job]
     = (Inl Failed_to_enqueue, [held_job])"
proof -
  have ids: "job_id ` set [held_job] = {''job1''}"
    by (simp add: held_job_def sample_job_def)
  have a: "enqueueJob \<lparr>d_id = Some [], d_command = Some ''sleep 2'', d_max_retries = Some 0\<rparr>
      ''generated-id'' 7000 7001 [held_job]
     = (Inr ((sample_job ''generated-id'' ''pending'')\<lparr>command := ''sleep 2'',
               created_at := 7000, updated_at := 7001\<rparr>),
        [held_job, (sample_job ''generated-id'' ''pending'')\<lparr>command := ''sleep 2'',
               created_at := 7000, updated_at := 7001\<rparr>])"
    using enqueueJob_spec [where jd="\<lparr>d_id = Some [], d_command = Some ''sleep 2'',
        d_max_retries = Some 0\<rparr>" and uuid="''generated-id''" and i="''generated-id''"
        and m=3 and rows="[held_job]" and now_c=7000 and now_u=7001] ids
    by (simp add: int4_def sample_job_def)
  have b: "enqueueJob \<lparr>d_id = Some ''job2'', d_command = Some ''sleep 2'', d_max_retries = Some 5\<rparr>
      ''generated-id'' 7000 7001 [held_job]
     = (Inr ((sample_job ''job2'' ''pending'')\<lparr>command := ''sleep 2'', max_retries := 5,
               created_at := 7000, updated_at := 7001\<rparr>),
        [held_job, (sample_job ''job2'' ''pending'')\<lparr>command := ''sleep 2'',
               max_retries := 5, created_at := 7000, updated_at := 7001\<rparr>])"
    using enqueueJob_spec [where jd="\<lparr>d_id = Some ''job2'', d_command = Some ''sleep 2'',
        d_max_retries = Some 5\<rparr>" and uuid="''generated-id''" and i="''job2''"
        and m=5 and rows="[held_job]" and now_c=7000 and now_u=7001] ids
    by (simp add: int4_def sample_job_def)
  have c: "enqueueJob \<lparr>d_id = Some ''job1'', d_command = Some ''sleep 2'', d_max_retries = None\<rparr>
      ''generated-id'' 7000 7001 [held_job]
     = (Inl Failed_to_enqueue, [held_job])"
    using enqueueJob_spec [where jd="\<lparr>d_id = Some ''job1'', d_command = Some ''sleep 2'',
        d_max_retries = None\<rparr>" and uuid="''generated-id''" and i="''job1''"
        and m=3 and rows="[held_job]" and now_c=7000 and now_u=7001] ids
    by simp
  from a b c show ?thesis by simp
qed

section \<open>Failure and backoff\<close>

text \<open>
  What \<open>markJobFailed\<close> does to an existing job, by cases: the attempt count it writes
  is the old one plus one; when that reaches \<open>max_retries\<close> the job is \<open>dead\<close> with no
  retry time; below \<open>max_retries\<close> the job is \<open>failed\<close> with the retry time
  \<open>Date.now()\<close> plus \<open>backoffBase\<close> to the new attempt count, in seconds, as long as
  that time is one the store reads; when it is not one a \<open>Date\<close> can hold,
  \<open>toISOString\<close> throws, when a \<open>Date\<close> holds it and the store does not read it, the
  update is refused, and either way nothing is written. (The attempt counts of the
  lemmas are from 0 on, as the queue writes them, and within the 32 bits of the column.)
\<close>

lemma new_Date_of_int:
  "new_Date (of_int t) = (if \<bar>t\<bar> > 8640000000000000 then None else Some t)"
  by (simp add: new_Date_def)

lemma delay_of_int:
  "0 \<le> n \<Longrightarrow> Math_pow b n = Some (of_int b ^ nat n)"
  by (simp add: Math_pow_def)

lemma new_Date_retry_time:
  "new_Date (of_int date_now + of_int b ^ k * 1000)
     = (if \<bar>date_now + b ^ k * 1000\<bar> > 8640000000000000 then None
        else Some (date_now + b ^ k * 1000))"
proof -
  have "(of_int date_now :: rat) + of_int b ^ k * 1000 = of_int (date_now + b ^ k * 1000)"
    by simp
  then show ?thesis by (simp only: new_Date_of_int)
qed

lemma Math_pow_fraction:
  "Math_pow 2 (- 1) = Some (1 / 2) \<and> Math_pow 0 (- 1) = None
   \<and> new_Date (of_int 1700000000000 + 1 / 2 * 1000) = Some 1700000000500"
  by (simp add: Math_pow_def new_Date_def)

lemma markJobFailed_dead:
  assumes "primary_key rows" and "j \<in> set rows" and "attempts j + 1 \<ge> max_retries j"
    and "int4 (attempts j + 1)"
  shows "\<exists>rows'. markJobFailed date_now now_u (job_id j) msg b rows
           = (Inr (j\<lparr>state := ''dead'', updated_at := now_u, attempts := attempts j + 1,
                     next_retry_at := None, error_message := Some msg,
                     locked_by := None, locked_at := None\<rparr>), rows')"
proof -
  let ?u = "spread (no_updates\<lparr>u_state := Some ''dead'', u_updated_at := Some now_u\<rparr>)
              (no_updates\<lparr>u_attempts := Some (attempts j + 1),
                  u_error_message := Some (Some msg), u_locked_by := Some None,
                  u_locked_at := Some None, u_next_retry_at := Some None\<rparr>)"
  have acc: "accepted ?u" using assms(4) by (simp add: accepted_defs)
  have "markJobFailed date_now now_u (job_id j) msg b rows
          = (Inr (apply_updates ?u j), rewrite (\<lambda>r. job_id r = job_id j) ?u rows)"
    using assms(1-3) updateJobState_present [OF assms(1,2) acc]
    by (simp add: markJobFailed_def getJob_present Let_def)
  moreover have "apply_updates ?u j = j\<lparr>state := ''dead'', updated_at := now_u, attempts := attempts j + 1,
                     next_retry_at := None, error_message := Some msg,
                     locked_by := None, locked_at := None\<rparr>"
    by (simp add: upd_defs)
  ultimately show ?thesis by simp
qed

lemma markJobFailed_retry:
  assumes "primary_key rows" and "j \<in> set rows" and "attempts j + 1 < max_retries j"
    and "0 \<le> attempts j" and "int4 (attempts j + 1)"
    and "timestamptz_text (date_now + b ^ nat (attempts j + 1) * 1000)"
  shows "\<exists>rows'. markJobFailed date_now now_u (job_id j) msg b rows
           = (Inr (j\<lparr>state := ''failed'', updated_at := now_u, attempts := attempts j + 1,
                     next_retry_at := Some (date_now + b ^ nat (attempts j + 1) * 1000),
                     error_message := Some msg,
                     locked_by := None, locked_at := None\<rparr>), rows')"
proof -
  let ?t = "date_now + b ^ nat (attempts j + 1) * 1000"
  let ?u = "spread (no_updates\<lparr>u_state := Some ''failed'', u_updated_at := Some now_u\<rparr>)
              (no_updates\<lparr>u_attempts := Some (attempts j + 1),
                  u_error_message := Some (Some msg),
                  u_next_retry_at := Some (Some ?t), u_locked_by := Some None,
                  u_locked_at := Some None\<rparr>)"
  have acc: "accepted ?u" using assms(5,6) by (simp add: accepted_defs)
  have pw: "Math_pow b (attempts j + 1) = Some (of_int b ^ nat (attempts j + 1))"
    using assms(4) by (simp add: delay_of_int)
  have "\<bar>?t\<bar> \<le> 8640000000000000"
    using assms(6) unfolding timestamptz_text_def by linarith
  then have dt: "new_Date (of_int date_now + of_int b ^ nat (attempts j + 1) * 1000) = Some ?t"
    by (simp only: new_Date_retry_time) simp
  have "markJobFailed date_now now_u (job_id j) msg b rows
          = (Inr (apply_updates ?u j), rewrite (\<lambda>r. job_id r = job_id j) ?u rows)"
    using assms(1-3) updateJobState_present [OF assms(1,2) acc]
    by (simp add: markJobFailed_def getJob_present Let_def pw dt)
  moreover have "apply_updates ?u j = j\<lparr>state := ''failed'', updated_at := now_u, attempts := attempts j + 1,
                     next_retry_at := Some ?t, error_message := Some msg,
                     locked_by := None, locked_at := None\<rparr>"
    by (simp add: upd_defs)
  ultimately show ?thesis by simp
qed

lemma markJobFailed_out_of_range:
  assumes "primary_key rows" and "j \<in> set rows" and "attempts j + 1 < max_retries j"
    and "0 \<le> attempts j"
    and "\<bar>date_now + b ^ nat (attempts j + 1) * 1000\<bar> > 8640000000000000"
  shows "markJobFailed date_now now_u (job_id j) msg b rows = (Inl Invalid_time_value, rows)"
proof -
  have pw: "Math_pow b (attempts j + 1) = Some (of_int b ^ nat (attempts j + 1))"
    using assms(4) by (simp add: delay_of_int)
  have dt: "new_Date (of_int date_now + of_int b ^ nat (attempts j + 1) * 1000) = None"
    using assms(5) by (simp only: new_Date_retry_time) simp
  show ?thesis
    using assms(1-3) by (simp add: markJobFailed_def getJob_present Let_def pw dt)
qed

lemma markJobFailed_refused_by_store:
  assumes "primary_key rows" and "j \<in> set rows" and "attempts j + 1 < max_retries j"
    and "0 \<le> attempts j"
    and "\<bar>date_now + b ^ nat (attempts j + 1) * 1000\<bar> \<le> 8640000000000000"
    and "\<not> timestamptz_text (date_now + b ^ nat (attempts j + 1) * 1000)"
  shows "markJobFailed date_now now_u (job_id j) msg b rows
           = (Inl Failed_to_update_job_state, rows)"
proof -
  let ?t = "date_now + b ^ nat (attempts j + 1) * 1000"
  have pw: "Math_pow b (attempts j + 1) = Some (of_int b ^ nat (attempts j + 1))"
    using assms(4) by (simp add: delay_of_int)
  have dt: "new_Date (of_int date_now + of_int b ^ nat (attempts j + 1) * 1000) = Some ?t"
    using assms(5) by (simp only: new_Date_retry_time) simp
  show ?thesis
    using assms(1-3,6)
    by (simp add: markJobFailed_def getJob_present Let_def pw dt updateJobState_def
        update_single_def accepted_defs)
qed

text \<open>
  C1. The backoff law does not hold for every job and every failure: with the backoff
  base 10000000000000 read from the configuration, the first failure of a job with the
  default \<open>max_retries = 3\<close> asks for a retry time beyond the range of \<open>Date\<close>;
  \<open>markJobFailed\<close> throws the RangeError of \<open>toISOString\<close> and the job stays as it was:
  \<open>processing\<close>, \<open>attempts = 0\<close>, lease held.
\<close>

theorem markJobFailed_invalid_date:
  "attempts fresh_held_job + 1 < max_retries fresh_held_job
   \<and> markJobFailed 1700000000000 1700000000001 ''job1'' ''exit code 1'' 10000000000000
        [fresh_held_job] = (Inl Invalid_time_value, [fresh_held_job])
   \<and> state fresh_held_job = ''processing'' \<and> attempts fresh_held_job = 0
   \<and> locked_by fresh_held_job = Some ''worker-a''"
  by (simp add: markJobFailed_def getJob_def fresh_held_job_def sample_job_def Let_def
      Math_pow_def new_Date_def)

section \<open>Statistics\<close>

lemma count_state_fields:
  "pending (count_state s st) = pending s + (if st = ''pending'' then 1 else 0)"
  "processing (count_state s st) = processing s + (if st = ''processing'' then 1 else 0)"
  "completed (count_state s st) = completed s + (if st = ''completed'' then 1 else 0)"
  "failed (count_state s st) = failed s + (if st = ''failed'' then 1 else 0)"
  "dead (count_state s st) = dead s + (if st = ''dead'' then 1 else 0)"
  "total_stat (count_state s st) = total_stat s + (if st = ''total'' then 1 else 0)"
  by (simp_all add: count_state_def)

lemma in_state_Cons:
  "in_state st (r # rows) = (if state r = st then 1 else 0) + in_state st rows"
  by (simp add: in_state_def)

lemma in_state_Nil: "in_state st [] = 0"
  by (simp add: in_state_def)

lemma foldl_count_state:
  "pending (foldl (\<lambda>s r. count_state s (state r)) s0 rows) = pending s0 + in_state ''pending'' rows
   \<and> processing (foldl (\<lambda>s r. count_state s (state r)) s0 rows) = processing s0 + in_state ''processing'' rows
   \<and> completed (foldl (\<lambda>s r. count_state s (state r)) s0 rows) = completed s0 + in_state ''completed'' rows
   \<and> failed (foldl (\<lambda>s r. count_state s (state r)) s0 rows) = failed s0 + in_state ''failed'' rows
   \<and> dead (foldl (\<lambda>s r. count_state s (state r)) s0 rows) = dead s0 + in_state ''dead'' rows
   \<and> total_stat (foldl (\<lambda>s r. count_state s (state r)) s0 rows) = total_stat s0 + in_state ''total'' rows"
proof (induction rows arbitrary: s0)
  case Nil
  show ?case by (simp add: in_state_Nil)
next
  case (Cons r rows)
  show ?case
    by (simp only: foldl_Cons Cons.IH count_state_fields in_state_Cons) simp
qed

lemma known_states_partition:
  assumes "\<forall>r\<in>set rows. state r = ''pending'' \<or> state r = ''processing''
             \<or> state r = ''completed'' \<or> state r = ''failed'' \<or> state r = ''dead''"
  shows "in_state ''pending'' rows + in_state ''processing'' rows + in_state ''completed'' rows
           + in_state ''failed'' rows + in_state ''dead'' rows = int (length rows)"
  using assms
proof (induction rows)
  case Nil
  show ?case by (simp add: in_state_Nil)
next
  case (Cons r rows)
  then have IH: "in_state ''pending'' rows + in_state ''processing'' rows + in_state ''completed'' rows
           + in_state ''failed'' rows + in_state ''dead'' rows = int (length rows)" by simp
  from Cons.prems have "state r = ''pending'' \<or> state r = ''processing''
             \<or> state r = ''completed'' \<or> state r = ''failed'' \<or> state r = ''dead''" by simp
  then show ?case
    using IH by (elim disjE) (simp_all add: in_state_Cons)
qed

lemma no_total_state:
  "\<forall>r\<in>set rows. state r \<noteq> ''total'' \<Longrightarrow> in_state ''total'' rows = 0"
  by (simp add: in_state_def filter_empty_conv)

lemma getJobStats_fields:
  "pending (getJobStats rows) = in_state ''pending'' rows
   \<and> processing (getJobStats rows) = in_state ''processing'' rows
   \<and> completed (getJobStats rows) = in_state ''completed'' rows
   \<and> failed (getJobStats rows) = in_state ''failed'' rows
   \<and> dead (getJobStats rows) = in_state ''dead'' rows
   \<and> total_stat (getJobStats rows) = int (length rows) + in_state ''total'' rows"
  using foldl_count_state
    [of "\<lparr>pending = 0, processing = 0, completed = 0, failed = 0, dead = 0,
           total_stat = int (length rows)\<rparr>" rows, folded getJobStats_def]
  by simp

text \<open>
  C10. For every contents of the job store (every table the schema admits: the state of
  each job is one of the five of \<open>valid_state\<close>), \<open>getJobStats\<close> returns \<open>total\<close> equal to
  the number of jobs and each of \<open>pending\<close>, \<open>processing\<close>, \<open>completed\<close>, \<open>failed\<close>,
  \<open>dead\<close> equal to the number of jobs in that state, and the five counts sum to
  \<open>total\<close>.
\<close>

theorem getJobStats_spec:
  assumes "\<forall>r\<in>set rows. valid_state (state r)"
  shows "total_stat (getJobStats rows) = int (length rows)
       \<and> pending (getJobStats rows) = in_state ''pending'' rows
       \<and> processing (getJobStats rows) = in_state ''processing'' rows
       \<and> completed (getJobStats rows) = in_state ''completed'' rows
       \<and> failed (getJobStats rows) = in_state ''failed'' rows
       \<and> dead (getJobStats rows) = in_state ''dead'' rows
       \<and> pending (getJobStats rows) + processing (getJobStats rows)
           + completed (getJobStats rows) + failed (getJobStats rows)
           + dead (getJobStats rows) = total_stat (getJobStats rows)"
proof -
  from assms have five: "\<forall>r\<in>set rows. state r = ''pending'' \<or> state r = ''processing''
             \<or> state r = ''completed'' \<or> state r = ''failed'' \<or> state r = ''dead''"
    by (simp add: valid_state_def)
  then have "\<forall>r\<in>set rows. state r \<noteq> ''total''" by auto
  then have "in_state ''total'' rows = 0" by (rule no_total_state)
  with getJobStats_fields [of rows] known_states_partition [OF five]
  show ?thesis by simp
qed

theorem getJobStats_spec_witness:
  "list_all (\<lambda>r. valid_state (state r)) [held_job, dead_job, sample_job ''job4'' ''dead'']
   \<and> getJobStats [held_job, dead_job, sample_job ''job4'' ''dead'']
        = \<lparr>pending = 0, processing = 1, completed = 0, failed = 0, dead = 2, total_stat = 3\<rparr>
   \<and> total_stat (getJobStats [held_job, dead_job, sample_job ''job4'' ''dead''])
        = int (length [held_job, dead_job, sample_job ''job4'' ''dead''])
   \<and> pending (getJobStats [held_job, dead_job, sample_job ''job4'' ''dead''])
       + processing (getJobStats [held_job, dead_job, sample_job ''job4'' ''dead''])
       + completed (getJobStats [held_job, dead_job, sample_job ''job4'' ''dead''])
       + failed (getJobStats [held_job, dead_job, sample_job ''job4'' ''dead''])
       + dead (getJobStats [held_job, dead_job, sample_job ''job4'' ''dead''])
       = total_stat (getJobStats [held_job, dead_job, sample_job ''job4'' ''dead''])"
proof -
  let ?rows = "[held_job, dead_job, sample_job ''job4'' ''dead'']"
  have h: "\<forall>r\<in>set ?rows. valid_state (state r)"
    by (simp add: held_job_def dead_job_def sample_job_def valid_state_def)
  have ev: "getJobStats ?rows
        = \<lparr>pending = 0, processing = 1, completed = 0, failed = 0, dead = 2, total_stat = 3\<rparr>"
    by (simp add: getJobStats_def count_state_def held_job_def dead_job_def sample_job_def)
  from getJobStats_spec [OF h]
  have "total_stat (getJobStats ?rows) = int (length ?rows)
      \<and> pending (getJobStats ?rows) + processing (getJobStats ?rows)
           + completed (getJobStats ?rows) + failed (getJobStats ?rows)
           + dead (getJobStats ?rows) = total_stat (getJobStats ?rows)"
    by blast
  with h ev show ?thesis by (simp add: list_all_iff)
qed

section \<open>Acquiring a lease\<close>

lemma quiet_fields:
  "scan quiet t = t" "meanwhile_pending quiet t = t" "meanwhile_retry quiet t = t"
  "meanwhile_stale quiet t = t"
  by (simp_all add: quiet_def)

lemma accepted_lock_fields [simp]: "accepted (lock_fields w now)"
  by (simp add: accepted_def lock_fields_def no_updates_def valid_state_def)

lemma acquire_stale_alone:
  "acquire_stale workerId now rows =
     (case staleLocks now rows of
        [] \<Rightarrow> (None, rows)
      | jb # _ \<Rightarrow>
          (case claim_stale workerId now jb rows of
             (Inr (Some lockedJob), rows') \<Rightarrow> (Some lockedJob, rows')
           | (_, rows') \<Rightarrow> (None, rows')))"
  by (simp add: acquire_stale_def acquire_stale_in_def quiet_fields split: list.splits)

lemma acquire_retry_alone:
  "acquire_retry workerId now rows =
     (case retryJobs now rows of
        [] \<Rightarrow> acquire_stale workerId now rows
      | jb # _ \<Rightarrow>
          (case claim_unlocked workerId now jb rows of
             (Inr (Some lockedJob), rows') \<Rightarrow> (Some lockedJob, rows')
           | (_, rows') \<Rightarrow> acquire_stale workerId now rows'))"
  by (simp add: acquire_retry_def acquire_retry_in_def acquire_stale_def quiet_fields
      split: list.splits prod.splits sum.splits option.splits)

lemma acquireJobLock_alone:
  "acquireJobLock workerId now rows =
     (case pendingJobs rows of
        [] \<Rightarrow> acquire_retry workerId now rows
      | jb # _ \<Rightarrow>
          (case claim_unlocked workerId now jb rows of
             (Inr (Some lockedJob), rows') \<Rightarrow> (Some lockedJob, rows')
           | (_, rows') \<Rightarrow> acquire_retry workerId now rows'))"
  by (simp add: acquireJobLock_def acquireJobLock_in_def acquire_retry_def quiet_fields
      split: list.splits prod.splits sum.splits option.splits)

lemma apply_lock_fields: "apply_updates (lock_fields w now) r = leased w now r"
  by (simp add: apply_updates_def lock_fields_def no_updates_def set_to_def leased_def)

lemma rewrite_lock_fields:
  "rewrite flt (lock_fields w now) rows = map (\<lambda>r. if flt r then leased w now r else r) rows"
  by (simp add: rewrite_def apply_lock_fields)

lemma same_id_same_row:
  assumes "distinct (map job_id rows)" and "r \<in> set rows" and "jb \<in> set rows"
    and "job_id r = job_id jb"
  shows "r = jb"
  using assms by (meson distinct_map inj_onD)

lemma filter_id_free_unique:
  assumes "distinct (map job_id rows)" and "jb \<in> set rows" and "locked_by jb = None"
  shows "filter (\<lambda>r. job_id r = job_id jb \<and> locked_by r = None) rows = [jb]"
proof -
  have "filter (\<lambda>r. job_id r = job_id jb \<and> locked_by r = None) rows
          = filter (\<lambda>r. locked_by r = None) (filter (\<lambda>r. job_id r = job_id jb) rows)"
    by (simp add: conj_commute)
  also have "\<dots> = filter (\<lambda>r. locked_by r = None) [jb]"
    using assms(1,2) by (simp only: filter_id_unique)
  also have "\<dots> = [jb]" using assms(3) by simp
  finally show ?thesis .
qed

lemma map_cong_id_free:
  assumes "distinct (map job_id rows)" and "jb \<in> set rows" and "locked_by jb = None"
  shows "map (\<lambda>r. if job_id r = job_id jb \<and> locked_by r = None then leased w now r else r) rows
           = map (\<lambda>r. if job_id r = job_id jb then leased w now r else r) rows"
proof (rule map_cong [OF refl])
  fix r assume "r \<in> set rows"
  then have "job_id r = job_id jb \<Longrightarrow> r = jb"
    using assms(1,2) by (simp add: same_id_same_row)
  then show "(if job_id r = job_id jb \<and> locked_by r = None then leased w now r else r)
           = (if job_id r = job_id jb then leased w now r else r)"
    using assms(3) by auto
qed

lemma claim_unlocked_wins:
  assumes "primary_key rows" and "jb \<in> set rows" and "locked_by jb = None"
  shows "claim_unlocked w now jb rows
           = (Inr (Some (leased w now jb)),
              map (\<lambda>r. if job_id r = job_id jb then leased w now r else r) rows)"
  using assms
  by (simp add: claim_unlocked_def update_maybeSingle_def primary_key_def
      filter_id_free_unique apply_lock_fields rewrite_lock_fields map_cong_id_free)

lemma claim_stale_applies:
  assumes "primary_key rows" and "r \<in> set rows" and "job_id r = job_id jb"
  shows "claim_stale w now jb rows
           = (Inr (Some (leased w now r)),
              map (\<lambda>r. if job_id r = job_id jb then leased w now r else r) rows)"
proof -
  have "filter (\<lambda>x. job_id x = job_id jb) rows = [r]"
    using assms filter_id_unique [of rows r] by (simp add: primary_key_def)
  then show ?thesis
    by (simp add: claim_stale_def update_maybeSingle_def apply_lock_fields rewrite_lock_fields)
qed

lemma claim_unlocked_lost:
  assumes "primary_key rows" and "r \<in> set rows" and "job_id r = job_id jb"
    and "locked_by r \<noteq> None"
  shows "claim_unlocked w now jb rows = (Inr None, rows)"
proof -
  have "filter (\<lambda>x. job_id x = job_id jb \<and> locked_by x = None) rows
          = filter (\<lambda>x. locked_by x = None) (filter (\<lambda>x. job_id x = job_id jb) rows)"
    by (simp add: conj_commute)
  also have "filter (\<lambda>x. job_id x = job_id jb) rows = [r]"
    using assms filter_id_unique [of rows r] by (simp add: primary_key_def)
  finally have "filter (\<lambda>x. job_id x = job_id jb \<and> locked_by x = None) rows = []"
    using assms(4) by simp
  then show ?thesis by (simp add: claim_unlocked_def update_maybeSingle_def)
qed

lemma claim_unlocked_wins_row:
  assumes "primary_key rows" and "r \<in> set rows" and "job_id r = job_id jb"
    and "locked_by r = None"
  shows "claim_unlocked w now jb rows
           = (Inr (Some (leased w now r)),
              map (\<lambda>x. if job_id x = job_id jb then leased w now x else x) rows)"
proof -
  have "claim_unlocked w now jb rows = claim_unlocked w now r rows"
    using assms(3) by (simp add: claim_unlocked_def)
  also have "\<dots> = (Inr (Some (leased w now r)),
              map (\<lambda>x. if job_id x = job_id r then leased w now x else x) rows)"
    using assms(1,2,4) by (rule claim_unlocked_wins)
  finally show ?thesis using assms(3) by simp
qed

lemma claim_unlocked_none:
  assumes "\<forall>r\<in>set rows. job_id r = job_id jb \<longrightarrow> locked_by r \<noteq> None"
  shows "claim_unlocked w now jb rows = (Inr None, rows)"
proof -
  have "filter (\<lambda>x. job_id x = job_id jb \<and> locked_by x = None) rows = []"
    using assms by (auto simp: filter_empty_conv)
  then show ?thesis by (simp add: claim_unlocked_def update_maybeSingle_def)
qed

lemma claim_stale_none:
  assumes "\<forall>r\<in>set rows. job_id r \<noteq> job_id jb"
  shows "claim_stale w now jb rows = (Inr None, rows)"
proof -
  have "filter (\<lambda>x. job_id x = job_id jb) rows = []"
    using assms by (auto simp: filter_empty_conv)
  then show ?thesis by (simp add: claim_stale_def update_maybeSingle_def)
qed

lemma take1_sort_key_Nil: "take 1 (sort_key f xs) = [] \<longleftrightarrow> xs = []"
proof
  assume "take 1 (sort_key f xs) = []"
  then have "sort_key f xs = []" by simp
  then have "length xs = 0" by (metis length_sort list.size(3))
  then show "xs = []" by simp
next
  assume "xs = []" then show "take 1 (sort_key f xs) = []" by simp
qed

lemma take1_sort_key_Cons:
  assumes "take 1 (sort_key f xs) = x # rest"
  shows "x \<in> set xs \<and> (\<forall>k\<in>set xs. f x \<le> f k)"
proof -
  from assms obtain ys where ys: "sort_key f xs = x # ys"
    by (cases "sort_key f xs") auto
  have "sorted (map f (sort_key f xs))" by (rule sorted_sort_key)
  with ys have le: "\<forall>k\<in>set ys. f x \<le> f k" by simp
  have "set xs = set (x # ys)" using ys by (metis set_sort)
  with le show ?thesis by auto
qed

lemma pendingJobs_Nil: "pendingJobs rows = [] \<longleftrightarrow> (\<forall>r\<in>set rows. \<not> is_pending_free r)"
  unfolding pendingJobs_def take1_sort_key_Nil by (simp add: filter_empty_conv)

lemma pendingJobs_Cons:
  assumes "pendingJobs rows = jb # rest"
  shows "jb \<in> set rows \<and> is_pending_free jb
         \<and> (\<forall>k\<in>set rows. is_pending_free k \<longrightarrow> created_at jb \<le> created_at k)"
  using take1_sort_key_Cons [OF assms [unfolded pendingJobs_def]] by auto

lemma retryJobs_Nil: "retryJobs now rows = [] \<longleftrightarrow> (\<forall>r\<in>set rows. \<not> is_retry_due now r)"
  unfolding retryJobs_def take1_sort_key_Nil by (simp add: filter_empty_conv)

lemma retryJobs_Cons:
  assumes "retryJobs now rows = jb # rest"
  shows "jb \<in> set rows \<and> is_retry_due now jb
         \<and> (\<forall>k\<in>set rows. is_retry_due now k \<longrightarrow>
               the (next_retry_at jb) \<le> the (next_retry_at k))"
  using take1_sort_key_Cons [OF assms [unfolded retryJobs_def]] by auto

lemma staleLocks_Nil: "staleLocks now rows = [] \<longleftrightarrow> (\<forall>r\<in>set rows. \<not> is_stale now r)"
  by (simp add: staleLocks_def filter_empty_conv)

lemma staleLocks_Cons:
  assumes "staleLocks now rows = jb # rest"
  shows "\<exists>pre post. rows = pre @ jb # post \<and> is_stale now jb
           \<and> (\<forall>r\<in>set pre. \<not> is_stale now r)"
proof -
  from assms obtain ys where ys: "filter (is_stale now) rows = jb # ys"
    by (cases "filter (is_stale now) rows") (auto simp: staleLocks_def)
  then show ?thesis
    by (auto simp: filter_eq_Cons_iff)
qed

lemmas samples = pending_old_def pending_new_def failed_soon_def failed_later_def
  failed_not_due_def stale_recent_def stale_oldest_def held_recent_def sample_job_def

lemma acquire_stale_some:
  assumes "primary_key rows" and "staleLocks now rows = jb # rest"
  shows "acquire_stale w now rows
           = (Some (leased w now jb),
              map (\<lambda>r. if job_id r = job_id jb then leased w now r else r) rows)"
proof -
  from staleLocks_Cons [OF assms(2)] have "jb \<in> set rows" by auto
  then show ?thesis
    using assms by (simp add: acquire_stale_alone claim_stale_applies)
qed

lemma acquire_stale_none:
  assumes "\<forall>r\<in>set rows. \<not> is_stale now r"
  shows "acquire_stale w now rows = (None, rows)"
  using assms by (simp add: acquire_stale_alone staleLocks_Nil [symmetric])

lemma acquire_retry_some:
  assumes "primary_key rows" and "retryJobs now rows = jb # rest"
  shows "acquire_retry w now rows
           = (Some (leased w now jb),
              map (\<lambda>r. if job_id r = job_id jb then leased w now r else r) rows)"
proof -
  from retryJobs_Cons [OF assms(2)] have "jb \<in> set rows" "locked_by jb = None"
    by (auto simp: is_retry_due_def)
  then show ?thesis
    using assms by (simp add: acquire_retry_alone claim_unlocked_wins)
qed

lemma acquire_retry_none:
  assumes "\<forall>r\<in>set rows. \<not> is_retry_due now r"
  shows "acquire_retry w now rows = acquire_stale w now rows"
  using assms by (simp add: acquire_retry_alone retryJobs_Nil [symmetric])

lemma acquireJobLock_some:
  assumes "primary_key rows" and "pendingJobs rows = jb # rest"
  shows "acquireJobLock w now rows
           = (Some (leased w now jb),
              map (\<lambda>r. if job_id r = job_id jb then leased w now r else r) rows)"
proof -
  from pendingJobs_Cons [OF assms(2)] have "jb \<in> set rows" "locked_by jb = None"
    by (auto simp: is_pending_free_def)
  then show ?thesis
    using assms by (simp add: acquireJobLock_alone claim_unlocked_wins)
qed

lemma acquireJobLock_none:
  assumes "\<forall>r\<in>set rows. \<not> is_pending_free r"
  shows "acquireJobLock w now rows = acquire_retry w now rows"
  using assms by (simp add: acquireJobLock_alone pendingJobs_Nil [symmetric])

text \<open>
  The call that runs alone, by the classes of the rows it finds.
\<close>

lemma acquireJobLock_alone_priority:
  assumes "primary_key rows"
  shows "((\<exists>r\<in>set rows. is_pending_free r) \<longrightarrow>
            (\<exists>jb\<in>set rows. is_pending_free jb
               \<and> (\<forall>k\<in>set rows. is_pending_free k \<longrightarrow> created_at jb \<le> created_at k)
               \<and> acquireJobLock w now rows
                   = (Some (leased w now jb),
                      map (\<lambda>r. if job_id r = job_id jb then leased w now r else r) rows)))
       \<and> ((\<forall>r\<in>set rows. \<not> is_pending_free r) \<and> (\<exists>r\<in>set rows. is_retry_due now r) \<longrightarrow>
            (\<exists>jb\<in>set rows. is_retry_due now jb
               \<and> (\<forall>k\<in>set rows. is_retry_due now k \<longrightarrow>
                     the (next_retry_at jb) \<le> the (next_retry_at k))
               \<and> acquireJobLock w now rows
                   = (Some (leased w now jb),
                      map (\<lambda>r. if job_id r = job_id jb then leased w now r else r) rows)))
       \<and> ((\<forall>r\<in>set rows. \<not> is_pending_free r \<and> \<not> is_retry_due now r)
             \<and> (\<exists>r\<in>set rows. is_stale now r) \<longrightarrow>
            (\<exists>jb\<in>set rows. is_stale now jb
               \<and> acquireJobLock w now rows
                   = (Some (leased w now jb),
                      map (\<lambda>r. if job_id r = job_id jb then leased w now r else r) rows)))
       \<and> ((\<forall>r\<in>set rows. \<not> is_pending_free r \<and> \<not> is_retry_due now r \<and> \<not> is_stale now r) \<longrightarrow>
            acquireJobLock w now rows = (None, rows))"
proof (intro conjI impI)
  assume "\<exists>r\<in>set rows. is_pending_free r"
  then have "pendingJobs rows \<noteq> []" by (simp add: pendingJobs_Nil)
  then obtain jb rest where sel: "pendingJobs rows = jb # rest"
    by (cases "pendingJobs rows") auto
  from pendingJobs_Cons [OF sel] acquireJobLock_some [OF assms sel, of w now]
  show "\<exists>jb\<in>set rows. is_pending_free jb
               \<and> (\<forall>k\<in>set rows. is_pending_free k \<longrightarrow> created_at jb \<le> created_at k)
               \<and> acquireJobLock w now rows
                   = (Some (leased w now jb),
                      map (\<lambda>r. if job_id r = job_id jb then leased w now r else r) rows)"
    by blast
next
  assume a: "(\<forall>r\<in>set rows. \<not> is_pending_free r) \<and> (\<exists>r\<in>set rows. is_retry_due now r)"
  then have "retryJobs now rows \<noteq> []" by (simp add: retryJobs_Nil)
  then obtain jb rest where sel: "retryJobs now rows = jb # rest"
    by (cases "retryJobs now rows") auto
  from a have "acquireJobLock w now rows = acquire_retry w now rows"
    by (simp add: acquireJobLock_none)
  with retryJobs_Cons [OF sel] acquire_retry_some [OF assms sel, of w]
  show "\<exists>jb\<in>set rows. is_retry_due now jb
               \<and> (\<forall>k\<in>set rows. is_retry_due now k \<longrightarrow>
                     the (next_retry_at jb) \<le> the (next_retry_at k))
               \<and> acquireJobLock w now rows
                   = (Some (leased w now jb),
                      map (\<lambda>r. if job_id r = job_id jb then leased w now r else r) rows)"
    by (metis (no_types, lifting))
next
  assume a: "(\<forall>r\<in>set rows. \<not> is_pending_free r \<and> \<not> is_retry_due now r)
             \<and> (\<exists>r\<in>set rows. is_stale now r)"
  then have "staleLocks now rows \<noteq> []" by (simp add: staleLocks_Nil)
  then obtain jb rest where sel: "staleLocks now rows = jb # rest"
    by (cases "staleLocks now rows") auto
  from a have "acquireJobLock w now rows = acquire_stale w now rows"
    by (simp add: acquireJobLock_none acquire_retry_none)
  moreover from staleLocks_Cons [OF sel] have "jb \<in> set rows" "is_stale now jb" by auto
  ultimately show "\<exists>jb\<in>set rows. is_stale now jb
               \<and> acquireJobLock w now rows
                   = (Some (leased w now jb),
                      map (\<lambda>r. if job_id r = job_id jb then leased w now r else r) rows)"
    using acquire_stale_some [OF assms sel, of w] by (metis (no_types, lifting))
next
  assume a: "\<forall>r\<in>set rows. \<not> is_pending_free r \<and> \<not> is_retry_due now r \<and> \<not> is_stale now r"
  then show "acquireJobLock w now rows = (None, rows)"
    by (simp add: acquireJobLock_none acquire_retry_none acquire_stale_none)
qed

lemmas preds = is_pending_free_def is_retry_due_def is_stale_def lockTimeout_def

lemma pending_stage:
  assumes "\<And>t. set (scan e t) = set t"
  shows "(pendingJobs (scan e rows) = []) = (\<forall>r\<in>set rows. \<not> is_pending_free r)"
    and "pendingJobs (scan e rows) = jb # rest \<Longrightarrow>
           jb \<in> set rows \<and> is_pending_free jb
           \<and> (\<forall>k\<in>set rows. is_pending_free k \<longrightarrow> created_at jb \<le> created_at k)"
    and "pendingJobs (scan e rows) = [] \<Longrightarrow>
           acquireJobLock_in e w now rows = acquire_retry_in e w now rows"
    and "pendingJobs (scan e rows) = jb # rest \<Longrightarrow>
           primary_key (meanwhile_pending e rows) \<Longrightarrow> r \<in> set (meanwhile_pending e rows) \<Longrightarrow>
           job_id r = job_id jb \<Longrightarrow> locked_by r = None \<Longrightarrow>
           acquireJobLock_in e w now rows
             = (Some (leased w now r),
                map (\<lambda>x. if job_id x = job_id jb then leased w now x else x)
                  (meanwhile_pending e rows))"
    and "pendingJobs (scan e rows) = jb # rest \<Longrightarrow>
           \<forall>r\<in>set (meanwhile_pending e rows). job_id r = job_id jb \<longrightarrow> locked_by r \<noteq> None \<Longrightarrow>
           acquireJobLock_in e w now rows
             = acquire_retry_in e w now (meanwhile_pending e rows)"
proof -
  show "(pendingJobs (scan e rows) = []) = (\<forall>r\<in>set rows. \<not> is_pending_free r)"
    by (simp add: pendingJobs_Nil assms)
  show "pendingJobs (scan e rows) = jb # rest \<Longrightarrow>
           jb \<in> set rows \<and> is_pending_free jb
           \<and> (\<forall>k\<in>set rows. is_pending_free k \<longrightarrow> created_at jb \<le> created_at k)"
    using pendingJobs_Cons [of "scan e rows" jb rest] by (simp add: assms)
  show "pendingJobs (scan e rows) = [] \<Longrightarrow>
           acquireJobLock_in e w now rows = acquire_retry_in e w now rows"
    by (simp add: acquireJobLock_in_def)
  show "pendingJobs (scan e rows) = jb # rest \<Longrightarrow>
           primary_key (meanwhile_pending e rows) \<Longrightarrow> r \<in> set (meanwhile_pending e rows) \<Longrightarrow>
           job_id r = job_id jb \<Longrightarrow> locked_by r = None \<Longrightarrow>
           acquireJobLock_in e w now rows
             = (Some (leased w now r),
                map (\<lambda>x. if job_id x = job_id jb then leased w now x else x)
                  (meanwhile_pending e rows))"
    by (simp add: acquireJobLock_in_def claim_unlocked_wins_row)
  show "pendingJobs (scan e rows) = jb # rest \<Longrightarrow>
           \<forall>r\<in>set (meanwhile_pending e rows). job_id r = job_id jb \<longrightarrow> locked_by r \<noteq> None \<Longrightarrow>
           acquireJobLock_in e w now rows
             = acquire_retry_in e w now (meanwhile_pending e rows)"
    by (simp add: acquireJobLock_in_def claim_unlocked_none)
qed

lemma retry_stage:
  assumes "\<And>t. set (scan e t) = set t"
  shows "(retryJobs now (scan e rows) = []) = (\<forall>r\<in>set rows. \<not> is_retry_due now r)"
    and "retryJobs now (scan e rows) = jb # rest \<Longrightarrow>
           jb \<in> set rows \<and> is_retry_due now jb
           \<and> (\<forall>k\<in>set rows. is_retry_due now k \<longrightarrow>
                 the (next_retry_at jb) \<le> the (next_retry_at k))"
    and "retryJobs now (scan e rows) = [] \<Longrightarrow>
           acquire_retry_in e w now rows = acquire_stale_in e w now rows"
    and "retryJobs now (scan e rows) = jb # rest \<Longrightarrow>
           primary_key (meanwhile_retry e rows) \<Longrightarrow> r \<in> set (meanwhile_retry e rows) \<Longrightarrow>
           job_id r = job_id jb \<Longrightarrow> locked_by r = None \<Longrightarrow>
           acquire_retry_in e w now rows
             = (Some (leased w now r),
                map (\<lambda>x. if job_id x = job_id jb then leased w now x else x)
                  (meanwhile_retry e rows))"
    and "retryJobs now (scan e rows) = jb # rest \<Longrightarrow>
           \<forall>r\<in>set (meanwhile_retry e rows). job_id r = job_id jb \<longrightarrow> locked_by r \<noteq> None \<Longrightarrow>
           acquire_retry_in e w now rows
             = acquire_stale_in e w now (meanwhile_retry e rows)"
proof -
  show "(retryJobs now (scan e rows) = []) = (\<forall>r\<in>set rows. \<not> is_retry_due now r)"
    by (simp add: retryJobs_Nil assms)
  show "retryJobs now (scan e rows) = jb # rest \<Longrightarrow>
           jb \<in> set rows \<and> is_retry_due now jb
           \<and> (\<forall>k\<in>set rows. is_retry_due now k \<longrightarrow>
                 the (next_retry_at jb) \<le> the (next_retry_at k))"
    using retryJobs_Cons [of now "scan e rows" jb rest] by (simp add: assms)
  show "retryJobs now (scan e rows) = [] \<Longrightarrow>
           acquire_retry_in e w now rows = acquire_stale_in e w now rows"
    by (simp add: acquire_retry_in_def)
  show "retryJobs now (scan e rows) = jb # rest \<Longrightarrow>
           primary_key (meanwhile_retry e rows) \<Longrightarrow> r \<in> set (meanwhile_retry e rows) \<Longrightarrow>
           job_id r = job_id jb \<Longrightarrow> locked_by r = None \<Longrightarrow>
           acquire_retry_in e w now rows
             = (Some (leased w now r),
                map (\<lambda>x. if job_id x = job_id jb then leased w now x else x)
                  (meanwhile_retry e rows))"
    by (simp add: acquire_retry_in_def claim_unlocked_wins_row)
  show "retryJobs now (scan e rows) = jb # rest \<Longrightarrow>
           \<forall>r\<in>set (meanwhile_retry e rows). job_id r = job_id jb \<longrightarrow> locked_by r \<noteq> None \<Longrightarrow>
           acquire_retry_in e w now rows
             = acquire_stale_in e w now (meanwhile_retry e rows)"
    by (simp add: acquire_retry_in_def claim_unlocked_none)
qed

lemma stale_stage:
  assumes "\<And>t. set (scan e t) = set t"
  shows "(staleLocks now (scan e rows) = []) = (\<forall>r\<in>set rows. \<not> is_stale now r)"
    and "staleLocks now (scan e rows) = jb # rest \<Longrightarrow> jb \<in> set rows \<and> is_stale now jb"
    and "staleLocks now (scan e rows) = [] \<Longrightarrow> acquire_stale_in e w now rows = (None, rows)"
    and "staleLocks now (scan e rows) = jb # rest \<Longrightarrow>
           primary_key (meanwhile_stale e rows) \<Longrightarrow> r \<in> set (meanwhile_stale e rows) \<Longrightarrow>
           job_id r = job_id jb \<Longrightarrow>
           acquire_stale_in e w now rows
             = (Some (leased w now r),
                map (\<lambda>x. if job_id x = job_id jb then leased w now x else x)
                  (meanwhile_stale e rows))"
    and "staleLocks now (scan e rows) = jb # rest \<Longrightarrow>
           \<forall>r\<in>set (meanwhile_stale e rows). job_id r \<noteq> job_id jb \<Longrightarrow>
           acquire_stale_in e w now rows = (None, meanwhile_stale e rows)"
proof -
  show "(staleLocks now (scan e rows) = []) = (\<forall>r\<in>set rows. \<not> is_stale now r)"
    by (simp add: staleLocks_Nil assms)
  show "staleLocks now (scan e rows) = jb # rest \<Longrightarrow> jb \<in> set rows \<and> is_stale now jb"
    using staleLocks_Cons [of now "scan e rows" jb rest] assms [of rows] by auto
  show "staleLocks now (scan e rows) = [] \<Longrightarrow> acquire_stale_in e w now rows = (None, rows)"
    by (simp add: acquire_stale_in_def)
  show "staleLocks now (scan e rows) = jb # rest \<Longrightarrow>
           primary_key (meanwhile_stale e rows) \<Longrightarrow> r \<in> set (meanwhile_stale e rows) \<Longrightarrow>
           job_id r = job_id jb \<Longrightarrow>
           acquire_stale_in e w now rows
             = (Some (leased w now r),
                map (\<lambda>x. if job_id x = job_id jb then leased w now x else x)
                  (meanwhile_stale e rows))"
    by (simp add: acquire_stale_in_def claim_stale_applies)
  show "staleLocks now (scan e rows) = jb # rest \<Longrightarrow>
           \<forall>r\<in>set (meanwhile_stale e rows). job_id r \<noteq> job_id jb \<Longrightarrow>
           acquire_stale_in e w now rows = (None, meanwhile_stale e rows)"
    by (simp add: acquire_stale_in_def claim_stale_none)
qed

text \<open>
  C3. \<open>acquireJobLock\<close> takes its three selections in strict order and the first match
  wins, whatever order the store delivers the rows in and whatever the other writers do
  between a selection and its claim. The first selection is empty exactly when no
  pending job is without lease holder; otherwise its candidate is such a job with the
  least \<open>created_at\<close>. If the candidate's row is still without lease holder when the
  claim arrives, the call leases it and returns it; only if the selection was empty, or
  the claim was lost because the row has a lease holder by then, does the call go on to
  the second selection, on the table as it then is. The second selection is empty
  exactly when no failed job without lease holder has a \<open>next_retry_at\<close> that has
  elapsed; otherwise its candidate is such a job with the least \<open>next_retry_at\<close>, and
  winning and losing its claim are as for the first. Only after that comes the third
  selection, empty exactly when no processing job has a stale lease; its candidate is a
  stale one, and the call leases whatever row has the candidate's id by then. With
  nothing selected, or the third candidate gone, the call returns nothing.
\<close>

theorem acquireJobLock_in_priority:
  assumes "\<And>t. set (scan e t) = set t"
  shows "((pendingJobs (scan e rows) = []) = (\<forall>r\<in>set rows. \<not> is_pending_free r))
       \<and> (\<forall>jb rest. pendingJobs (scan e rows) = jb # rest \<longrightarrow>
             jb \<in> set rows \<and> is_pending_free jb
             \<and> (\<forall>k\<in>set rows. is_pending_free k \<longrightarrow> created_at jb \<le> created_at k))
       \<and> (pendingJobs (scan e rows) = [] \<longrightarrow>
             acquireJobLock_in e w now rows = acquire_retry_in e w now rows)
       \<and> (\<forall>jb rest r. pendingJobs (scan e rows) = jb # rest
             \<and> primary_key (meanwhile_pending e rows) \<and> r \<in> set (meanwhile_pending e rows)
             \<and> job_id r = job_id jb \<and> locked_by r = None \<longrightarrow>
             acquireJobLock_in e w now rows
               = (Some (leased w now r),
                  map (\<lambda>x. if job_id x = job_id jb then leased w now x else x)
                    (meanwhile_pending e rows)))
       \<and> (\<forall>jb rest. pendingJobs (scan e rows) = jb # rest
             \<and> (\<forall>r\<in>set (meanwhile_pending e rows).
                   job_id r = job_id jb \<longrightarrow> locked_by r \<noteq> None) \<longrightarrow>
             acquireJobLock_in e w now rows
               = acquire_retry_in e w now (meanwhile_pending e rows))
       \<and> ((retryJobs now (scan e rows) = []) = (\<forall>r\<in>set rows. \<not> is_retry_due now r))
       \<and> (\<forall>jb rest. retryJobs now (scan e rows) = jb # rest \<longrightarrow>
             jb \<in> set rows \<and> is_retry_due now jb
             \<and> (\<forall>k\<in>set rows. is_retry_due now k \<longrightarrow>
                   the (next_retry_at jb) \<le> the (next_retry_at k)))
       \<and> (retryJobs now (scan e rows) = [] \<longrightarrow>
             acquire_retry_in e w now rows = acquire_stale_in e w now rows)
       \<and> (\<forall>jb rest r. retryJobs now (scan e rows) = jb # rest
             \<and> primary_key (meanwhile_retry e rows) \<and> r \<in> set (meanwhile_retry e rows)
             \<and> job_id r = job_id jb \<and> locked_by r = None \<longrightarrow>
             acquire_retry_in e w now rows
               = (Some (leased w now r),
                  map (\<lambda>x. if job_id x = job_id jb then leased w now x else x)
                    (meanwhile_retry e rows)))
       \<and> (\<forall>jb rest. retryJobs now (scan e rows) = jb # rest
             \<and> (\<forall>r\<in>set (meanwhile_retry e rows).
                   job_id r = job_id jb \<longrightarrow> locked_by r \<noteq> None) \<longrightarrow>
             acquire_retry_in e w now rows
               = acquire_stale_in e w now (meanwhile_retry e rows))
       \<and> ((staleLocks now (scan e rows) = []) = (\<forall>r\<in>set rows. \<not> is_stale now r))
       \<and> (\<forall>jb rest. staleLocks now (scan e rows) = jb # rest \<longrightarrow>
             jb \<in> set rows \<and> is_stale now jb)
       \<and> (staleLocks now (scan e rows) = [] \<longrightarrow>
             acquire_stale_in e w now rows = (None, rows))
       \<and> (\<forall>jb rest r. staleLocks now (scan e rows) = jb # rest
             \<and> primary_key (meanwhile_stale e rows) \<and> r \<in> set (meanwhile_stale e rows)
             \<and> job_id r = job_id jb \<longrightarrow>
             acquire_stale_in e w now rows
               = (Some (leased w now r),
                  map (\<lambda>x. if job_id x = job_id jb then leased w now x else x)
                    (meanwhile_stale e rows)))
       \<and> (\<forall>jb rest. staleLocks now (scan e rows) = jb # rest
             \<and> (\<forall>r\<in>set (meanwhile_stale e rows). job_id r \<noteq> job_id jb) \<longrightarrow>
             acquire_stale_in e w now rows = (None, meanwhile_stale e rows))"
proof -
  note p = pending_stage [of e, OF assms]
  note r = retry_stage [of e, OF assms]
  note s = stale_stage [of e, OF assms]
  have c1: "((pendingJobs (scan e rows) = []) = (\<forall>r\<in>set rows. \<not> is_pending_free r))"
    using p(1) by blast
  have c2: "(\<forall>jb rest. pendingJobs (scan e rows) = jb # rest \<longrightarrow>
          jb \<in> set rows \<and> is_pending_free jb
          \<and> (\<forall>k\<in>set rows. is_pending_free k \<longrightarrow> created_at jb \<le> created_at k))"
    using p(2) by blast
  have c3: "(pendingJobs (scan e rows) = [] \<longrightarrow>
          acquireJobLock_in e w now rows = acquire_retry_in e w now rows)"
    using p(3) by blast
  have c4: "(\<forall>jb rest r. pendingJobs (scan e rows) = jb # rest
          \<and> primary_key (meanwhile_pending e rows) \<and> r \<in> set (meanwhile_pending e rows)
          \<and> job_id r = job_id jb \<and> locked_by r = None \<longrightarrow>
          acquireJobLock_in e w now rows
            = (Some (leased w now r),
               map (\<lambda>x. if job_id x = job_id jb then leased w now x else x)
                 (meanwhile_pending e rows)))"
    using p(4) by blast
  have c5: "(\<forall>jb rest. pendingJobs (scan e rows) = jb # rest
          \<and> (\<forall>r\<in>set (meanwhile_pending e rows).
                job_id r = job_id jb \<longrightarrow> locked_by r \<noteq> None) \<longrightarrow>
          acquireJobLock_in e w now rows
            = acquire_retry_in e w now (meanwhile_pending e rows))"
    using p(5) by blast
  have c6: "((retryJobs now (scan e rows) = []) = (\<forall>r\<in>set rows. \<not> is_retry_due now r))"
    using r(1) by blast
  have c7: "(\<forall>jb rest. retryJobs now (scan e rows) = jb # rest \<longrightarrow>
          jb \<in> set rows \<and> is_retry_due now jb
          \<and> (\<forall>k\<in>set rows. is_retry_due now k \<longrightarrow>
                the (next_retry_at jb) \<le> the (next_retry_at k)))"
    using r(2) by blast
  have c8: "(retryJobs now (scan e rows) = [] \<longrightarrow>
          acquire_retry_in e w now rows = acquire_stale_in e w now rows)"
    using r(3) by blast
  have c9: "(\<forall>jb rest r. retryJobs now (scan e rows) = jb # rest
          \<and> primary_key (meanwhile_retry e rows) \<and> r \<in> set (meanwhile_retry e rows)
          \<and> job_id r = job_id jb \<and> locked_by r = None \<longrightarrow>
          acquire_retry_in e w now rows
            = (Some (leased w now r),
               map (\<lambda>x. if job_id x = job_id jb then leased w now x else x)
                 (meanwhile_retry e rows)))"
    using r(4) by blast
  have c10: "(\<forall>jb rest. retryJobs now (scan e rows) = jb # rest
          \<and> (\<forall>r\<in>set (meanwhile_retry e rows).
                job_id r = job_id jb \<longrightarrow> locked_by r \<noteq> None) \<longrightarrow>
          acquire_retry_in e w now rows
            = acquire_stale_in e w now (meanwhile_retry e rows))"
    using r(5) by blast
  have c11: "((staleLocks now (scan e rows) = []) = (\<forall>r\<in>set rows. \<not> is_stale now r))"
    using s(1) by blast
  have c12: "(\<forall>jb rest. staleLocks now (scan e rows) = jb # rest \<longrightarrow>
          jb \<in> set rows \<and> is_stale now jb)"
    using s(2) by blast
  have c13: "(staleLocks now (scan e rows) = [] \<longrightarrow>
          acquire_stale_in e w now rows = (None, rows))"
    using s(3) by blast
  have c14: "(\<forall>jb rest r. staleLocks now (scan e rows) = jb # rest
          \<and> primary_key (meanwhile_stale e rows) \<and> r \<in> set (meanwhile_stale e rows)
          \<and> job_id r = job_id jb \<longrightarrow>
          acquire_stale_in e w now rows
            = (Some (leased w now r),
               map (\<lambda>x. if job_id x = job_id jb then leased w now x else x)
                 (meanwhile_stale e rows)))"
    using s(4) by blast
  have c15: "(\<forall>jb rest. staleLocks now (scan e rows) = jb # rest
          \<and> (\<forall>r\<in>set (meanwhile_stale e rows). job_id r \<noteq> job_id jb) \<longrightarrow>
          acquire_stale_in e w now rows = (None, meanwhile_stale e rows))"
    using s(5) by blast
  show ?thesis
    using c1 c2 c3 c4 c5 c6 c7 c8 c9 c10 c11 c12 c13 c14 c15
    by - (assumption | rule conjI)+
qed

lemmas acquire_in_defs = acquireJobLock_in_def acquire_retry_in_def acquire_stale_in_def
  pendingJobs_def retryJobs_def staleLocks_def claim_unlocked_def claim_stale_def
  update_maybeSingle_def apply_lock_fields rewrite_lock_fields

lemma scan_quiet: "set (scan quiet t) = set t"
  by (simp add: quiet_fields)

lemma scan_lost_once: "set (scan lost_once t) = set t"
  by (simp add: lost_once_def quiet_def)

lemma scan_lost_twice: "set (scan lost_twice t) = set t"
  by (simp add: lost_twice_def lost_once_def quiet_def)

theorem acquireJobLock_in_priority_witness:
  "(\<forall>t. set (scan quiet t) = set t) \<and> (\<forall>t. set (scan lost_once t) = set t)
   \<and> (\<forall>t. set (scan lost_twice t) = set t)
   \<and> pendingJobs (scan quiet store_a) = [pending_old]
   \<and> acquireJobLock_in quiet ''worker-b'' 1000000 store_a
        = (Some (leased ''worker-b'' 1000000 pending_old),
           [stale_recent, failed_later, pending_new, failed_soon,
            leased ''worker-b'' 1000000 pending_old, stale_oldest])
   \<and> meanwhile_pending lost_once store_a
        = [stale_recent, failed_later, pending_new, failed_soon,
           leased ''worker-z'' 999990 pending_old, stale_oldest]
   \<and> acquireJobLock_in lost_once ''worker-b'' 1000000 store_a
        = (Some (leased ''worker-b'' 1000000 failed_soon),
           [stale_recent, failed_later, pending_new,
            leased ''worker-b'' 1000000 failed_soon,
            leased ''worker-z'' 999990 pending_old, stale_oldest])
   \<and> acquireJobLock_in lost_twice ''worker-b'' 1000000 store_a
        = (Some (leased ''worker-b'' 1000000 stale_recent),
           [leased ''worker-b'' 1000000 stale_recent, failed_later, pending_new,
            leased ''worker-y'' 999995 failed_soon,
            leased ''worker-z'' 999990 pending_old, stale_oldest])
   \<and> acquireJobLock_in quiet ''worker-b'' 1000000 store_d = (None, store_d)"
proof -
  let ?s1 = "[stale_recent, failed_later, pending_new, failed_soon,
           leased ''worker-z'' 999990 pending_old, stale_oldest]"
  let ?s2 = "[stale_recent, failed_later, pending_new,
           leased ''worker-y'' 999995 failed_soon,
           leased ''worker-z'' 999990 pending_old, stale_oldest]"
  note q = acquireJobLock_in_priority [of quiet, OF scan_quiet,
      where w="''worker-b''" and now=1000000]
  note o = acquireJobLock_in_priority [of lost_once, OF scan_lost_once,
      where w="''worker-b''" and now=1000000]
  note t = acquireJobLock_in_priority [of lost_twice, OF scan_lost_twice,
      where w="''worker-b''" and now=1000000]
  have ids: "job_id pending_old = ''job-a''" "job_id failed_soon = ''job-c''"
    "job_id stale_recent = ''job-f''"
    by (simp_all add: samples)
  \<comment> \<open>the selections\<close>
  have selq: "pendingJobs (scan quiet store_a) = [pending_old]"
    by (simp add: quiet_fields store_a_def samples preds pendingJobs_def)
  have sel1: "pendingJobs (scan lost_once store_a) = [pending_old]"
    "pendingJobs (scan lost_twice store_a) = [pending_old]"
    by (simp_all add: lost_once_def lost_twice_def quiet_def store_a_def samples preds
        pendingJobs_def)
  have m1: "meanwhile_pending lost_once store_a = ?s1"
    "meanwhile_pending lost_twice store_a = ?s1"
    by (simp_all add: lost_once_def lost_twice_def quiet_def taken_by_def store_a_def samples)
  have sel2: "retryJobs 1000000 (scan lost_once ?s1) = [failed_soon]"
    "retryJobs 1000000 (scan lost_twice ?s1) = [failed_soon]"
    by (simp_all add: lost_once_def lost_twice_def quiet_def samples preds retryJobs_def
        leased_def)
  have m2: "meanwhile_retry lost_once ?s1 = ?s1" "meanwhile_retry lost_twice ?s1 = ?s2"
    by (simp_all add: lost_once_def lost_twice_def quiet_def taken_by_def samples leased_def)
  have sel3: "staleLocks 1000000 (scan lost_twice ?s2) = [stale_recent]"
    by (simp add: lost_twice_def lost_once_def quiet_def samples preds staleLocks_def
        leased_def)
  have m3: "meanwhile_stale lost_twice ?s2 = ?s2"
    by (simp add: lost_twice_def lost_once_def quiet_def)
  \<comment> \<open>run alone: the oldest free pending job\<close>
  have pkq: "primary_key (meanwhile_pending quiet store_a)"
    by (simp add: quiet_fields primary_key_def store_a_def samples)
  have memq: "pending_old \<in> set (meanwhile_pending quiet store_a)"
    "locked_by pending_old = None"
    by (simp_all add: quiet_fields store_a_def samples)
  from q [of store_a, THEN conjunct2, THEN conjunct2, THEN conjunct2, THEN conjunct1, rule_format, of pending_old "[]" pending_old] selq pkq memq
  have "acquireJobLock_in quiet ''worker-b'' 1000000 store_a
        = (Some (leased ''worker-b'' 1000000 pending_old),
           map (\<lambda>x. if job_id x = job_id pending_old then leased ''worker-b'' 1000000 x else x)
             (meanwhile_pending quiet store_a))"
    by simp
  then have runq: "acquireJobLock_in quiet ''worker-b'' 1000000 store_a
        = (Some (leased ''worker-b'' 1000000 pending_old),
           [stale_recent, failed_later, pending_new, failed_soon,
            leased ''worker-b'' 1000000 pending_old, stale_oldest])"
    by (simp add: quiet_fields store_a_def samples)
  \<comment> \<open>the pending claim is lost: the due failed job\<close>
  have lost1: "\<forall>r\<in>set ?s1. job_id r = job_id pending_old \<longrightarrow> locked_by r \<noteq> None"
    by (simp add: samples leased_def)
  from o [of store_a, THEN conjunct2, THEN conjunct2, THEN conjunct2, THEN conjunct2, THEN conjunct1, rule_format, of pending_old "[]"] sel1(1) lost1 m1(1)
  have o1: "acquireJobLock_in lost_once ''worker-b'' 1000000 store_a
          = acquire_retry_in lost_once ''worker-b'' 1000000 ?s1"
    by simp
  have pk1: "primary_key ?s1" by (simp add: primary_key_def samples leased_def)
  have mem1: "failed_soon \<in> set ?s1" "locked_by failed_soon = None"
    by (simp_all add: samples)
  from o [of ?s1, THEN conjunct2, THEN conjunct2, THEN conjunct2, THEN conjunct2, THEN conjunct2, THEN conjunct2, THEN conjunct2, THEN conjunct2, THEN conjunct1, rule_format, of failed_soon "[]" failed_soon] sel2(1) m2(1) pk1 mem1
  have "acquire_retry_in lost_once ''worker-b'' 1000000 ?s1
        = (Some (leased ''worker-b'' 1000000 failed_soon),
           map (\<lambda>x. if job_id x = job_id failed_soon then leased ''worker-b'' 1000000 x else x)
             ?s1)"
    by simp
  with o1 have runo: "acquireJobLock_in lost_once ''worker-b'' 1000000 store_a
        = (Some (leased ''worker-b'' 1000000 failed_soon),
           [stale_recent, failed_later, pending_new,
            leased ''worker-b'' 1000000 failed_soon,
            leased ''worker-z'' 999990 pending_old, stale_oldest])"
    by (simp add: samples leased_def)
  \<comment> \<open>both claims are lost: a stale lease\<close>
  from t [of store_a, THEN conjunct2, THEN conjunct2, THEN conjunct2, THEN conjunct2, THEN conjunct1, rule_format, of pending_old "[]"] sel1(2) lost1 m1(2)
  have t1: "acquireJobLock_in lost_twice ''worker-b'' 1000000 store_a
          = acquire_retry_in lost_twice ''worker-b'' 1000000 ?s1"
    by simp
  have lost2: "\<forall>r\<in>set ?s2. job_id r = job_id failed_soon \<longrightarrow> locked_by r \<noteq> None"
    by (simp add: samples leased_def)
  from t [of ?s1, THEN conjunct2, THEN conjunct2, THEN conjunct2, THEN conjunct2, THEN conjunct2, THEN conjunct2, THEN conjunct2, THEN conjunct2, THEN conjunct2, THEN conjunct1, rule_format, of failed_soon "[]"] sel2(2) lost2 m2(2)
  have t2: "acquire_retry_in lost_twice ''worker-b'' 1000000 ?s1
          = acquire_stale_in lost_twice ''worker-b'' 1000000 ?s2"
    by simp
  have pk2: "primary_key ?s2" by (simp add: primary_key_def samples leased_def)
  have mem2: "stale_recent \<in> set ?s2" by simp
  from t [of ?s2, THEN conjunct2, THEN conjunct2, THEN conjunct2, THEN conjunct2, THEN conjunct2, THEN conjunct2, THEN conjunct2, THEN conjunct2, THEN conjunct2, THEN conjunct2, THEN conjunct2, THEN conjunct2, THEN conjunct2, THEN conjunct1, rule_format, of stale_recent "[]" stale_recent] sel3 m3 pk2 mem2
  have "acquire_stale_in lost_twice ''worker-b'' 1000000 ?s2
        = (Some (leased ''worker-b'' 1000000 stale_recent),
           map (\<lambda>x. if job_id x = job_id stale_recent then leased ''worker-b'' 1000000 x else x)
             ?s2)"
    by simp
  with t1 t2 have runt: "acquireJobLock_in lost_twice ''worker-b'' 1000000 store_a
        = (Some (leased ''worker-b'' 1000000 stale_recent),
           [leased ''worker-b'' 1000000 stale_recent, failed_later, pending_new,
            leased ''worker-y'' 999995 failed_soon,
            leased ''worker-z'' 999990 pending_old, stale_oldest])"
    by (simp add: samples leased_def)
  \<comment> \<open>nothing to claim\<close>
  have none: "pendingJobs (scan quiet store_d) = []" "retryJobs 1000000 (scan quiet store_d) = []"
    "staleLocks 1000000 (scan quiet store_d) = []"
    by (simp_all add: quiet_fields store_d_def samples preds pendingJobs_def retryJobs_def
        staleLocks_def)
  from q [of store_d, THEN conjunct2, THEN conjunct2, THEN conjunct1, rule_format] q [of store_d, THEN conjunct2, THEN conjunct2, THEN conjunct2, THEN conjunct2, THEN conjunct2, THEN conjunct2, THEN conjunct2, THEN conjunct1, rule_format] q [of store_d, THEN conjunct2, THEN conjunct2, THEN conjunct2, THEN conjunct2, THEN conjunct2, THEN conjunct2, THEN conjunct2, THEN conjunct2, THEN conjunct2, THEN conjunct2, THEN conjunct2, THEN conjunct2, THEN conjunct1, rule_format] none
  have rund: "acquireJobLock_in quiet ''worker-b'' 1000000 store_d = (None, store_d)"
    by simp
  from scan_quiet scan_lost_once scan_lost_twice selq runq m1(1) runo runt rund
  show ?thesis by simp
qed

subsection \<open>Stale leases\<close>

lemma relabel_split:
  assumes "distinct (map job_id (pre @ jb # post))"
  shows "map (\<lambda>r. if job_id r = job_id jb then f r else r) (pre @ jb # post)
           = pre @ f jb # post"
proof -
  from assms have a: "\<forall>r\<in>set pre. job_id r \<noteq> job_id jb"
    and b: "\<forall>r\<in>set post. job_id r \<noteq> job_id jb"
    by (auto simp: image_iff)
  have "map (\<lambda>r. if job_id r = job_id jb then f r else r) pre = pre"
    using a by (simp add: map_idI)
  moreover have "map (\<lambda>r. if job_id r = job_id jb then f r else r) post = post"
    using b by (simp add: map_idI)
  ultimately show ?thesis by simp
qed

text \<open>
  The third selection of the call that runs alone: it is reached when no pending job is
  free and no failed job is due; it takes the first row delivered that is \<open>processing\<close>,
  has a lease holder (whoever it is) and a lease older than 5 minutes, and a row whose
  lease age does not exceed 5 minutes is never the one returned.
\<close>

lemma acquire_stale_selects:
  assumes "primary_key rows"
  shows "((\<forall>r\<in>set rows. \<not> is_pending_free r \<and> \<not> is_retry_due now r) \<longrightarrow>
            acquireJobLock w now rows = acquire_stale w now rows)
       \<and> ((\<forall>r\<in>set rows. \<not> is_stale now r) \<longrightarrow> acquire_stale w now rows = (None, rows))
       \<and> ((\<exists>r\<in>set rows. is_stale now r) \<longrightarrow>
            (\<exists>pre jb post holder t. rows = pre @ jb # post
               \<and> (\<forall>r\<in>set pre. \<not> is_stale now r)
               \<and> state jb = ''processing'' \<and> locked_by jb = Some holder
               \<and> locked_at jb = Some t \<and> 5 * 60 * 1000 < now - t
               \<and> acquire_stale w now rows
                   = (Some (leased w now jb), pre @ leased w now jb # post)))
       \<and> (\<forall>r\<in>set rows. \<forall>t got. locked_at r = Some t \<and> now - t \<le> 5 * 60 * 1000
              \<and> fst (acquire_stale w now rows) = Some got \<longrightarrow> job_id got \<noteq> job_id r)"
proof (intro conjI impI ballI allI)
  assume "\<forall>r\<in>set rows. \<not> is_pending_free r \<and> \<not> is_retry_due now r"
  then show "acquireJobLock w now rows = acquire_stale w now rows"
    by (simp add: acquireJobLock_none acquire_retry_none)
next
  assume "\<forall>r\<in>set rows. \<not> is_stale now r"
  then show "acquire_stale w now rows = (None, rows)" by (rule acquire_stale_none)
next
  assume "\<exists>r\<in>set rows. is_stale now r"
  then have "staleLocks now rows \<noteq> []" by (simp add: staleLocks_Nil)
  then obtain jb rest where sel: "staleLocks now rows = jb # rest"
    by (cases "staleLocks now rows") auto
  from staleLocks_Cons [OF sel] obtain pre post where
    sp: "rows = pre @ jb # post" and st: "is_stale now jb"
    and first: "\<forall>r\<in>set pre. \<not> is_stale now r" by blast
  from st obtain holder t where
    f: "state jb = ''processing''" "locked_by jb = Some holder" "locked_at jb = Some t"
       "5 * 60 * 1000 < now - t"
    by (auto simp: is_stale_def lockTimeout_def split: option.splits)
  have "map (\<lambda>r. if job_id r = job_id jb then leased w now r else r) rows
          = pre @ leased w now jb # post"
    using assms unfolding sp primary_key_def by (rule relabel_split)
  with acquire_stale_some [OF assms sel, of w]
  have "acquire_stale w now rows = (Some (leased w now jb), pre @ leased w now jb # post)"
    by simp
  with sp first f
  show "\<exists>pre jb post holder t. rows = pre @ jb # post
               \<and> (\<forall>r\<in>set pre. \<not> is_stale now r)
               \<and> state jb = ''processing'' \<and> locked_by jb = Some holder
               \<and> locked_at jb = Some t \<and> 5 * 60 * 1000 < now - t
               \<and> acquire_stale w now rows
                   = (Some (leased w now jb), pre @ leased w now jb # post)"
    by blast
next
  fix r t got
  assume r: "r \<in> set rows"
    and a: "locked_at r = Some t \<and> now - t \<le> 5 * 60 * 1000
              \<and> fst (acquire_stale w now rows) = Some got"
  then have notstale: "\<not> is_stale now r" by (simp add: is_stale_def lockTimeout_def)
  show "job_id got \<noteq> job_id r"
  proof (cases "staleLocks now rows")
    case Nil
    then have "acquire_stale w now rows = (None, rows)" by (simp add: acquire_stale_alone)
    with a show ?thesis by simp
  next
    case (Cons jb rest)
    from staleLocks_Cons [OF Cons] have jb: "jb \<in> set rows" "is_stale now jb" by auto
    from acquire_stale_some [OF assms Cons, of w] a have got: "got = leased w now jb" by simp
    show ?thesis
    proof
      assume "job_id got = job_id r"
      with got have "job_id jb = job_id r" by (simp add: leased_def)
      with assms jb(1) r have "jb = r"
        unfolding primary_key_def by (metis same_id_same_row)
      with jb(2) notstale show False by simp
    qed
  qed
qed

text \<open>
  C4. Among the stale leases the third selection does not take the oldest first: it has
  no order, unlike the first two, and takes the stale row the store delivers first. On
  \<open>store_c\<close> two leases are stale, one taken at 600000 and one at 100000; delivered in
  the order of the list the call returns the one of 600000, delivered in the reverse
  order the one of 100000.
\<close>

theorem acquire_stale_not_oldest_first:
  "list_all (\<lambda>r. \<not> is_pending_free r \<and> \<not> is_retry_due 1000000 r) store_c
   \<and> is_stale 1000000 stale_recent \<and> is_stale 1000000 stale_oldest
   \<and> stale_recent \<in> set store_c \<and> stale_oldest \<in> set store_c
   \<and> locked_at stale_oldest = Some 100000 \<and> locked_at stale_recent = Some 600000
   \<and> fst (acquireJobLock_in quiet ''worker-b'' 1000000 store_c)
        = Some (leased ''worker-b'' 1000000 stale_recent)
   \<and> fst (acquireJobLock_in (quiet\<lparr>scan := rev\<rparr>) ''worker-b'' 1000000 store_c)
        = Some (leased ''worker-b'' 1000000 stale_oldest)"
  by (simp add: quiet_def store_c_def samples preds acquire_in_defs)

text \<open>
  C2. The update that seizes a stale lease is filtered by the job's id alone, so it is
  not a compare-and-swap against the row that was read. Worker b reads the stale
  candidate; worker d then completes a whole \<open>acquireJobLock\<close> and holds the lease on
  that job (\<open>locked_by\<close>, \<open>locked_at\<close> and \<open>updated_at\<close> of the row have changed); the
  update of worker b applies all the same and hands the job to b as well.
\<close>

theorem claim_stale_overwrites_changed_row:
  "staleLocks 1000000 store_s = [stale_oldest]
   \<and> acquireJobLock ''worker-d'' 1000050 store_s
        = (Some (leased ''worker-d'' 1000050 stale_oldest),
           [leased ''worker-d'' 1000050 stale_oldest, held_recent])
   \<and> leased ''worker-d'' 1000050 stale_oldest \<noteq> stale_oldest
   \<and> claim_stale ''worker-b'' 1000000 stale_oldest
        [leased ''worker-d'' 1000050 stale_oldest, held_recent]
        = (Inr (Some (leased ''worker-b'' 1000000 stale_oldest)),
           [leased ''worker-b'' 1000000 stale_oldest, held_recent])"
  by (simp add: store_s_def samples preds acquireJobLock_alone acquire_retry_alone
      acquire_stale_alone pendingJobs_def retryJobs_def staleLocks_def claim_stale_def
      update_maybeSingle_def apply_lock_fields rewrite_lock_fields leased_def)


section \<open>The invariants under the operations\<close>

lemma rewrite_keeps:
  assumes "list_all P rows" and "\<And>r. P r \<Longrightarrow> flt r \<Longrightarrow> P (apply_updates u r)"
  shows "list_all P (rewrite flt u rows)"
  using assms by (auto simp: list_all_iff rewrite_def)

lemma update_single_keeps:
  assumes "list_all P rows" and "\<And>r. flt r \<Longrightarrow> P (apply_updates u r)"
  shows "list_all P (snd (update_single flt u rows))"
  using assms by (auto simp: update_single_def rewrite_keeps split: list.splits)

lemma update_maybeSingle_keeps:
  assumes "list_all P rows" and "\<And>r. flt r \<Longrightarrow> P (apply_updates u r)"
  shows "list_all P (snd (update_maybeSingle flt u rows))"
  using assms by (auto simp: update_maybeSingle_def rewrite_keeps split: list.splits)

lemma updateJobState_keeps:
  assumes "list_all P rows"
    and "\<And>r. P (apply_updates
            (spread (no_updates\<lparr>u_state := Some st, u_updated_at := Some now\<rparr>) add) r)"
  shows "list_all P (snd (updateJobState now jobId st add rows))"
proof -
  let ?u = "spread (no_updates\<lparr>u_state := Some st, u_updated_at := Some now\<rparr>) add"
  have "list_all P (snd (update_single (\<lambda>r. job_id r = jobId) ?u rows))"
    using assms by (intro update_single_keeps) auto
  then show ?thesis
    by (auto simp: updateJobState_def Let_def split: prod.splits option.splits)
qed

lemma leased_lease_inv: "lease_inv (leased w now r)"
  by (simp add: lease_inv_def leased_def)

lemma leased_retry_sched_inv: "retry_sched_inv (leased w now r)"
  by (simp add: retry_sched_inv_def leased_def)

lemma claim_keeps:
  assumes "list_all P rows" and "\<And>r. P (leased w now r)"
  shows "list_all P (snd (claim_unlocked w now jb rows))"
    and "list_all P (snd (claim_stale w now jb rows))"
  using assms
  by (auto simp: claim_unlocked_def claim_stale_def apply_lock_fields
      intro!: update_maybeSingle_keeps)

lemma acquire_stale_keeps:
  assumes "list_all P rows" and "\<And>r. P (leased w now r)"
  shows "list_all P (snd (acquire_stale w now rows))"
proof (cases "staleLocks now rows")
  case Nil
  then show ?thesis using assms(1) by (simp add: acquire_stale_alone)
next
  case (Cons jb rest)
  have "list_all P (snd (claim_stale w now jb rows))" using assms by (rule claim_keeps)
  then show ?thesis
    using Cons by (auto simp: acquire_stale_alone split: prod.splits sum.splits option.splits)
qed

lemma acquire_retry_keeps:
  assumes "list_all P rows" and "\<And>r. P (leased w now r)"
  shows "list_all P (snd (acquire_retry w now rows))"
proof (cases "retryJobs now rows")
  case Nil
  then show ?thesis using assms by (simp add: acquire_retry_alone acquire_stale_keeps)
next
  case (Cons jb rest)
  have k: "list_all P (snd (claim_unlocked w now jb rows))" using assms by (rule claim_keeps)
  then have "list_all P (snd (acquire_stale w now (snd (claim_unlocked w now jb rows))))"
    using assms(2) by (rule acquire_stale_keeps)
  with k show ?thesis
    using Cons by (auto simp: acquire_retry_alone split: prod.splits sum.splits option.splits)
qed

lemma acquireJobLock_keeps:
  assumes "list_all P rows" and "\<And>r. P (leased w now r)"
  shows "list_all P (snd (acquireJobLock w now rows))"
proof (cases "pendingJobs rows")
  case Nil
  then show ?thesis using assms by (simp add: acquireJobLock_alone acquire_retry_keeps)
next
  case (Cons jb rest)
  have k: "list_all P (snd (claim_unlocked w now jb rows))" using assms by (rule claim_keeps)
  then have "list_all P (snd (acquire_retry w now (snd (claim_unlocked w now jb rows))))"
    using assms(2) by (rule acquire_retry_keeps)
  with k show ?thesis
    using Cons by (auto simp: acquireJobLock_alone split: prod.splits sum.splits option.splits)
qed

lemma enqueueJob_keeps:
  assumes "list_all P rows"
    and "\<And>i c mr. P \<lparr>job_id = i, command = c, state = ''pending'', attempts = 0,
             max_retries = mr, created_at = now_c, updated_at = now_u,
             next_retry_at = None, error_message = None, completed_at = None,
             locked_by = None, locked_at = None\<rparr>"
  shows "list_all P (snd (enqueueJob jd uuid now_c now_u rows))"
  using assms
  by (auto simp: enqueueJob_def store_insert_def Let_def split: option.splits)

lemma markJobCompleted_keeps:
  assumes "list_all P rows"
    and "\<And>r. P (r\<lparr>state := ''completed'', updated_at := now_u, error_message := None,
                    completed_at := Some now, locked_by := None, locked_at := None\<rparr>)"
  shows "list_all P (snd (markJobCompleted now now_u jobId rows))"
  unfolding markJobCompleted_def
proof (rule updateJobState_keeps [OF assms(1)])
  fix r
  have "apply_updates (spread (no_updates\<lparr>u_state := Some ''completed'', u_updated_at := Some now_u\<rparr>)
           (no_updates\<lparr>u_completed_at := Some (Some now), u_locked_by := Some None,
              u_locked_at := Some None, u_error_message := Some None\<rparr>)) r
        = r\<lparr>state := ''completed'', updated_at := now_u, error_message := None,
                    completed_at := Some now, locked_by := None, locked_at := None\<rparr>"
    by (simp add: upd_defs)
  with assms(2) show "P (apply_updates (spread (no_updates\<lparr>u_state := Some ''completed'', u_updated_at := Some now_u\<rparr>)
           (no_updates\<lparr>u_completed_at := Some (Some now), u_locked_by := Some None,
              u_locked_at := Some None, u_error_message := Some None\<rparr>)) r)" by simp
qed

lemma retryDLQJob_keeps:
  assumes "list_all P rows"
    and "\<And>r. P (r\<lparr>state := ''pending'', updated_at := now_u, attempts := 0,
                        next_retry_at := None, error_message := None,
                        locked_by := None, locked_at := None\<rparr>)"
  shows "list_all P (snd (retryDLQJob now_u jobId rows))"
proof -
  have "list_all P (snd (updateJobState now_u jobId ''pending''
                 (no_updates\<lparr>u_attempts := Some 0, u_error_message := Some None,
                    u_next_retry_at := Some None, u_locked_by := Some None,
                    u_locked_at := Some None\<rparr>) rows))"
  proof (rule updateJobState_keeps [OF assms(1)])
    fix r
    have "apply_updates (spread (no_updates\<lparr>u_state := Some ''pending'', u_updated_at := Some now_u\<rparr>)
            (no_updates\<lparr>u_attempts := Some 0, u_error_message := Some None,
                    u_next_retry_at := Some None, u_locked_by := Some None,
                    u_locked_at := Some None\<rparr>)) r
          = r\<lparr>state := ''pending'', updated_at := now_u, attempts := 0,
                        next_retry_at := None, error_message := None,
                        locked_by := None, locked_at := None\<rparr>"
      by (simp add: upd_defs)
    with assms(2) show "P (apply_updates (spread (no_updates\<lparr>u_state := Some ''pending'', u_updated_at := Some now_u\<rparr>)
            (no_updates\<lparr>u_attempts := Some 0, u_error_message := Some None,
                    u_next_retry_at := Some None, u_locked_by := Some None,
                    u_locked_at := Some None\<rparr>)) r)" by simp
  qed
  with assms(1) show ?thesis
    by (auto simp: retryDLQJob_def split: sum.splits option.splits)
qed

lemma markJobFailed_keeps:
  assumes "list_all P rows"
    and "\<And>r n. P (r\<lparr>state := ''dead'', updated_at := now_u, attempts := n,
                     next_retry_at := None, error_message := Some msg,
                     locked_by := None, locked_at := None\<rparr>)"
    and "\<And>r n t. P (r\<lparr>state := ''failed'', updated_at := now_u, attempts := n,
                     next_retry_at := Some t, error_message := Some msg,
                     locked_by := None, locked_at := None\<rparr>)"
  shows "list_all P (snd (markJobFailed date_now now_u jobId msg b rows))"
proof -
  have d: "list_all P (snd (updateJobState now_u jobId ''dead''
               (no_updates\<lparr>u_attempts := Some n,
                  u_error_message := Some (Some msg), u_locked_by := Some None,
                  u_locked_at := Some None, u_next_retry_at := Some None\<rparr>) rows))" for n
  proof (rule updateJobState_keeps [OF assms(1)])
    fix r
    have "apply_updates (spread (no_updates\<lparr>u_state := Some ''dead'', u_updated_at := Some now_u\<rparr>)
            (no_updates\<lparr>u_attempts := Some n,
                  u_error_message := Some (Some msg), u_locked_by := Some None,
                  u_locked_at := Some None, u_next_retry_at := Some None\<rparr>)) r
          = r\<lparr>state := ''dead'', updated_at := now_u, attempts := n,
                     next_retry_at := None, error_message := Some msg,
                     locked_by := None, locked_at := None\<rparr>"
      by (simp add: upd_defs)
    with assms(2) show "P (apply_updates (spread (no_updates\<lparr>u_state := Some ''dead'', u_updated_at := Some now_u\<rparr>)
            (no_updates\<lparr>u_attempts := Some n,
                  u_error_message := Some (Some msg), u_locked_by := Some None,
                  u_locked_at := Some None, u_next_retry_at := Some None\<rparr>)) r)" by simp
  qed
  have f: "list_all P (snd (updateJobState now_u jobId ''failed''
                    (no_updates\<lparr>u_attempts := Some n,
                       u_error_message := Some (Some msg),
                       u_next_retry_at := Some (Some t),
                       u_locked_by := Some None, u_locked_at := Some None\<rparr>) rows))" for n t
  proof (rule updateJobState_keeps [OF assms(1)])
    fix r
    have "apply_updates (spread (no_updates\<lparr>u_state := Some ''failed'', u_updated_at := Some now_u\<rparr>)
            (no_updates\<lparr>u_attempts := Some n,
                       u_error_message := Some (Some msg),
                       u_next_retry_at := Some (Some t),
                       u_locked_by := Some None, u_locked_at := Some None\<rparr>)) r
          = r\<lparr>state := ''failed'', updated_at := now_u, attempts := n,
                     next_retry_at := Some t, error_message := Some msg,
                     locked_by := None, locked_at := None\<rparr>"
      by (simp add: upd_defs)
    with assms(3) show "P (apply_updates (spread (no_updates\<lparr>u_state := Some ''failed'', u_updated_at := Some now_u\<rparr>)
            (no_updates\<lparr>u_attempts := Some n,
                       u_error_message := Some (Some msg),
                       u_next_retry_at := Some (Some t),
                       u_locked_by := Some None, u_locked_at := Some None\<rparr>)) r)" by simp
  qed
  from assms(1) d f show ?thesis
    by (auto simp: markJobFailed_def Let_def split: sum.splits option.splits)
qed

lemma releaseJobLock_keeps:
  assumes "list_all P rows"
    and "\<And>r. P r \<Longrightarrow> P (r\<lparr>updated_at := now, locked_by := None, locked_at := None\<rparr>)"
  shows "list_all P (releaseJobLock now jobId rows)"
  unfolding releaseJobLock_def
proof (rule rewrite_keeps [OF assms(1)])
  fix r assume "P r"
  moreover have "apply_updates (no_updates\<lparr>u_locked_by := Some None, u_locked_at := Some None,
          u_updated_at := Some now\<rparr>) r = r\<lparr>updated_at := now, locked_by := None, locked_at := None\<rparr>"
    by (simp add: upd_defs)
  ultimately show "P (apply_updates (no_updates\<lparr>u_locked_by := Some None, u_locked_at := Some None,
          u_updated_at := Some now\<rparr>) r)" using assms(2) by simp
qed

text \<open>
  C5, as amended. Enqueue, acquire, mark-completed, mark-failed and DLQ-retry preserve
  "\<open>locked_by\<close> is non-null if and only if \<open>state = processing\<close>"; release, which
  clears the lease and keeps the state, preserves only "a job with a lease holder is
  \<open>processing\<close>". All six operations preserve "a \<open>failed\<close> job has a \<open>next_retry_at\<close>, a
  \<open>pending\<close> or \<open>dead\<close> job has none"; a \<open>processing\<close> or \<open>completed\<close> job may still
  carry the \<open>next_retry_at\<close> of its last failure.
\<close>

theorem store_invariants_preserved:
  "(list_all lease_inv rows \<longrightarrow>
      list_all lease_inv (snd (enqueueJob jd uuid now_c now_u rows))
      \<and> list_all lease_inv (snd (acquireJobLock w now rows))
      \<and> list_all lease_inv (snd (markJobCompleted now now_u jobId rows))
      \<and> list_all lease_inv (snd (markJobFailed now now_u jobId msg b rows))
      \<and> list_all lease_inv (snd (retryDLQJob now_u jobId rows)))
   \<and> (list_all only_processing_leased rows \<longrightarrow>
        list_all only_processing_leased (releaseJobLock now jobId rows))
   \<and> (list_all retry_sched_inv rows \<longrightarrow>
      list_all retry_sched_inv (snd (enqueueJob jd uuid now_c now_u rows))
      \<and> list_all retry_sched_inv (snd (acquireJobLock w now rows))
      \<and> list_all retry_sched_inv (releaseJobLock now jobId rows)
      \<and> list_all retry_sched_inv (snd (markJobCompleted now now_u jobId rows))
      \<and> list_all retry_sched_inv (snd (markJobFailed now now_u jobId msg b rows))
      \<and> list_all retry_sched_inv (snd (retryDLQJob now_u jobId rows)))"
proof (intro conjI impI)
  assume a: "list_all lease_inv rows"
  show "list_all lease_inv (snd (enqueueJob jd uuid now_c now_u rows))"
    using a by (rule enqueueJob_keeps) (simp add: lease_inv_def)
  show "list_all lease_inv (snd (acquireJobLock w now rows))"
    using a by (rule acquireJobLock_keeps) (rule leased_lease_inv)
  show "list_all lease_inv (snd (markJobCompleted now now_u jobId rows))"
    using a by (rule markJobCompleted_keeps) (simp add: lease_inv_def)
  show "list_all lease_inv (snd (markJobFailed now now_u jobId msg b rows))"
    using a by (rule markJobFailed_keeps) (simp_all add: lease_inv_def)
  show "list_all lease_inv (snd (retryDLQJob now_u jobId rows))"
    using a by (rule retryDLQJob_keeps) (simp add: lease_inv_def)
next
  assume a: "list_all only_processing_leased rows"
  show "list_all only_processing_leased (releaseJobLock now jobId rows)"
    using a by (rule releaseJobLock_keeps) (simp add: only_processing_leased_def)
next
  assume a: "list_all retry_sched_inv rows"
  show "list_all retry_sched_inv (snd (enqueueJob jd uuid now_c now_u rows))"
    using a by (rule enqueueJob_keeps) (simp add: retry_sched_inv_def)
  show "list_all retry_sched_inv (snd (acquireJobLock w now rows))"
    using a by (rule acquireJobLock_keeps) (rule leased_retry_sched_inv)
  show "list_all retry_sched_inv (releaseJobLock now jobId rows)"
    using a by (rule releaseJobLock_keeps) (simp add: retry_sched_inv_def)
  show "list_all retry_sched_inv (snd (markJobCompleted now now_u jobId rows))"
    using a by (rule markJobCompleted_keeps) (simp add: retry_sched_inv_def)
  show "list_all retry_sched_inv (snd (markJobFailed now now_u jobId msg b rows))"
    using a by (rule markJobFailed_keeps) (simp_all add: retry_sched_inv_def)
  show "list_all retry_sched_inv (snd (retryDLQJob now_u jobId rows))"
    using a by (rule retryDLQJob_keeps) (simp add: retry_sched_inv_def)
qed

theorem store_invariants_preserved_witness:
  "list_all lease_inv store_b \<and> list_all only_processing_leased store_b
   \<and> list_all retry_sched_inv store_b
   \<and> snd (acquireJobLock ''worker-b'' 1000000 store_b)
       = [stale_recent, failed_later, failed_not_due,
          leased ''worker-b'' 1000000 failed_soon, stale_oldest]
   \<and> list_all lease_inv (snd (acquireJobLock ''worker-b'' 1000000 store_b))
   \<and> list_all retry_sched_inv (snd (acquireJobLock ''worker-b'' 1000000 store_b))
   \<and> list_all lease_inv (snd (markJobFailed 1000000 1000001 ''job-f'' ''boom'' 2 store_b))
   \<and> list_all retry_sched_inv (snd (markJobFailed 1000000 1000001 ''job-f'' ''boom'' 2 store_b))
   \<and> list_all only_processing_leased (releaseJobLock 1000000 ''job-f'' store_b)
   \<and> list_all retry_sched_inv (releaseJobLock 1000000 ''job-f'' store_b)"
proof -
  have h: "list_all lease_inv store_b" "list_all only_processing_leased store_b"
    "list_all retry_sched_inv store_b"
    by (simp_all add: store_b_def samples lease_inv_def only_processing_leased_def
        retry_sched_inv_def)
  have ev: "snd (acquireJobLock ''worker-b'' 1000000 store_b)
       = [stale_recent, failed_later, failed_not_due,
          leased ''worker-b'' 1000000 failed_soon, stale_oldest]"
    by (simp add: store_b_def samples preds acquireJobLock_alone acquire_retry_alone
      pendingJobs_def retryJobs_def claim_unlocked_def
      update_maybeSingle_def apply_lock_fields rewrite_lock_fields leased_def)
  from store_invariants_preserved [where rows=store_b and w="''worker-b''" and now=1000000
      and now_u=1000001 and jobId="''job-f''" and msg="''boom''" and b=2] h ev
  show ?thesis by simp
qed

text \<open>
  The claim as written fails twice. Acquiring a failed job that is due leaves its
  \<open>next_retry_at\<close> in place while the state becomes \<open>processing\<close>; releasing a held job
  leaves it \<open>processing\<close> with no lease holder.
\<close>

theorem invariant_broken_by_acquire_and_release:
  "list_all lease_inv [failed_soon] \<and> list_all retry_inv [failed_soon]
   \<and> acquireJobLock ''worker-b'' 1000000 [failed_soon]
       = (Some (leased ''worker-b'' 1000000 failed_soon),
          [leased ''worker-b'' 1000000 failed_soon])
   \<and> state (leased ''worker-b'' 1000000 failed_soon) = ''processing''
   \<and> next_retry_at (leased ''worker-b'' 1000000 failed_soon) = Some 1500
   \<and> \<not> list_all retry_inv (snd (acquireJobLock ''worker-b'' 1000000 [failed_soon]))
   \<and> list_all lease_inv [held_job] \<and> list_all retry_inv [held_job]
   \<and> releaseJobLock 3000 ''job1'' [held_job]
       = [held_job\<lparr>updated_at := 3000, locked_by := None, locked_at := None\<rparr>]
   \<and> state (held_job\<lparr>updated_at := 3000, locked_by := None, locked_at := None\<rparr>)
       = ''processing''
   \<and> \<not> list_all lease_inv (releaseJobLock 3000 ''job1'' [held_job])"
proof -
  have acq: "acquireJobLock ''worker-b'' 1000000 [failed_soon]
       = (Some (leased ''worker-b'' 1000000 failed_soon),
          [leased ''worker-b'' 1000000 failed_soon])"
    by (simp add: samples preds acquireJobLock_alone pendingJobs_def retryJobs_def
        acquire_retry_alone claim_unlocked_def update_maybeSingle_def apply_lock_fields
        rewrite_lock_fields leased_def)
  have rel: "releaseJobLock 3000 ''job1'' [held_job]
       = [held_job\<lparr>updated_at := 3000, locked_by := None, locked_at := None\<rparr>]"
    by (simp add: held_job_def sample_job_def releaseJobLock_def rewrite_def upd_defs)
  have before: "list_all lease_inv [failed_soon]" "list_all retry_inv [failed_soon]"
    "list_all lease_inv [held_job]" "list_all retry_inv [held_job]"
    by (simp_all add: samples held_job_def lease_inv_def retry_inv_def)
  have after: "state (leased ''worker-b'' 1000000 failed_soon) = ''processing''"
    "next_retry_at (leased ''worker-b'' 1000000 failed_soon) = Some 1500"
    "state (held_job\<lparr>updated_at := 3000, locked_by := None, locked_at := None\<rparr>)
       = ''processing''"
    by (simp_all add: samples held_job_def leased_def)
  have broken: "\<not> retry_inv (leased ''worker-b'' 1000000 failed_soon)"
    "\<not> lease_inv (held_job\<lparr>updated_at := 3000, locked_by := None, locked_at := None\<rparr>)"
    by (simp_all add: samples held_job_def leased_def lease_inv_def retry_inv_def)
  from acq rel before after broken show ?thesis by simp
qed

end
